theory Spec2Isabelle
  imports Main "HOL-Library.AList"
begin

section \<open>Python values, dictionaries and exceptions\<close>

text \<open>
  The values the client handles: what \<^verbatim>\<open>json.loads\<close> yields and what callers pass as
  arguments. Strings are byte strings (the module is Python 2 code: it calls
  \<^verbatim>\<open>xrange\<close>). A float is kept as its literal; nothing in the client computes with one.
  A dictionary with string keys is an association list read with \<^const>\<open>map_of\<close> and
  written with \<^const>\<open>AList.update\<close>.
\<close>

datatype pyval =
    PNone
  | PBool bool
  | PInt int
  | PFloat string
  | PStr string
  | PList "pyval list"
  | PTuple "pyval list"
  | PDict "(string \<times> pyval) list"

type_synonym dict = "(string \<times> pyval) list"

text \<open>
  The exceptions of the module (\<^verbatim>\<open>InvalidTokenException\<close>, \<^verbatim>\<open>InvalidItemDefinition\<close>
  with its message, \<^verbatim>\<open>APIException\<close>), the built-in \<^verbatim>\<open>Exception\<close> with its arguments,
  and the built-in errors the interpreter raises on a missing key or a value of the wrong
  type.
\<close>

datatype exn =
    InvalidTokenException
  | InvalidItemDefinition string
  | APIException string
  | Exception "pyval list"
  | KeyError string
  | TypeError
  | AttributeError
  | ValueError
  | SigningError string

text \<open>\<^verbatim>\<open>isinstance(x, (list, tuple))\<close> and \<^verbatim>\<open>isinstance(x, int)\<close> (a bool is an int).\<close>

fun is_list_or_tuple :: "pyval \<Rightarrow> bool" where
  "is_list_or_tuple (PList xs) = True"
| "is_list_or_tuple (PTuple xs) = True"
| "is_list_or_tuple v = False"

fun is_int :: "pyval \<Rightarrow> bool" where
  "is_int (PInt n) = True"
| "is_int (PBool b) = True"
| "is_int v = False"

text \<open>\<^verbatim>\<open>s.split(sep)\<close> for a one-character separator: \<^verbatim>\<open>''.split(',')\<close> is \<^verbatim>\<open>['']\<close>.\<close>

fun split_on :: "char \<Rightarrow> string \<Rightarrow> string \<Rightarrow> string list" where
  "split_on sep acc [] = [rev acc]"
| "split_on sep acc (c # cs) =
     (if c = sep then rev acc # split_on sep [] cs else split_on sep (c # acc) cs)"

definition split :: "string \<Rightarrow> char \<Rightarrow> string list" where
  "split s sep = split_on sep [] s"

text \<open>\<^verbatim>\<open>needle in haystack\<close> on strings.\<close>

fun is_prefix :: "string \<Rightarrow> string \<Rightarrow> bool" where
  "is_prefix [] ys = True"
| "is_prefix (x # xs) [] = False"
| "is_prefix (x # xs) (y # ys) = (x = y \<and> is_prefix xs ys)"

fun contains :: "string \<Rightarrow> string \<Rightarrow> bool" where
  "contains [] needle = (needle = [])"
| "contains (c # cs) needle = (is_prefix needle (c # cs) \<or> contains cs needle)"

section \<open>The environment: the modules and built-ins the client calls\<close>

text \<open>
  What \<^verbatim>\<open>compat.Request\<close> is built from, and the three ways
  \<^verbatim>\<open>compat.urlopen(req).read()\<close> can end.
\<close>

record request =
  req_url :: string
  req_data :: "string option"
  req_headers :: dict

datatype transport = URLError | OtherError | Body string

text \<open>
  Modelled from the spec: the modules \<^verbatim>\<open>signing\<close> and \<^verbatim>\<open>compat\<close> are not part of the
  source at hand, so the functions the client calls in them are parameters:
  \<^verbatim>\<open>signing.sign_and_encode(secret, params, url, method)\<close>, a function of its four
  arguments that yields the encoded query string or fails (the spec: with a
  configuration error on an empty secret); \<^verbatim>\<open>compat.quote_plus\<close>; and
  \<^verbatim>\<open>compat.urlopen\<close> with the read of the response. With them the built-ins whose
  result the client only passes on: \<^verbatim>\<open>json.loads\<close>, \<^verbatim>\<open>time.time\<close>, whether
  \<^verbatim>\<open>float(s)\<close> parses, and the index \<^verbatim>\<open>random.choice\<close> draws at its k-th call.
\<close>

record env =
  signing_sign_and_encode :: "string \<Rightarrow> dict \<Rightarrow> string \<Rightarrow> string \<Rightarrow> exn + string"
  compat_quote_plus :: "string \<Rightarrow> string"
  compat_urlopen_read :: "request \<Rightarrow> transport"
  json_loads :: "string \<Rightarrow> exn + pyval"
  time_time :: int
  float_parses :: "string \<Rightarrow> bool"
  random_choice :: "nat \<Rightarrow> nat"

section \<open>ItemDefinition\<close>

text \<open>
  Objects live in a store: a dictionary object is a cell of the heap and a reference to
  it is the cell's index, so that \<^verbatim>\<open>copy.copy\<close> and item assignment can be told apart
  from rebinding. An \<^verbatim>\<open>ItemDefinition\<close> holds the reference of its \<^verbatim>\<open>data\<close>.
\<close>

type_synonym heap = "dict list"

record ItemDefinition =
  data :: nat

definition is_AZ :: "char \<Rightarrow> bool" where
  "is_AZ c = (65 \<le> (of_char c :: nat) \<and> (of_char c :: nat) \<le> 90)"

definition is_digit :: "char \<Rightarrow> bool" where
  "is_digit c = (48 \<le> (of_char c :: nat) \<and> (of_char c :: nat) \<le> 57)"

text \<open>
  \<^verbatim>\<open>re.match('[A-Z]{3}\d+', price)\<close>: \<^verbatim>\<open>re.match\<close> matches at the start of the string
  and does not ask the match to reach its end. \<open>match_class\<close> consumes exactly \<open>n\<close>
  characters of a class; \<^verbatim>\<open>\d+\<close> then needs one digit or more.
\<close>

fun match_class :: "(char \<Rightarrow> bool) \<Rightarrow> nat \<Rightarrow> string \<Rightarrow> string option" where
  "match_class P 0 s = Some s"
| "match_class P (Suc n) [] = None"
| "match_class P (Suc n) (c # cs) = (if P c then match_class P n cs else None)"

definition re_match_pricing :: "string \<Rightarrow> bool" where
  "re_match_pricing price =
     (case match_class is_AZ 3 price of
        None \<Rightarrow> False
      | Some rest \<Rightarrow> takeWhile is_digit rest \<noteq> [])"

fun check_pricing :: "string \<Rightarrow> string list \<Rightarrow> exn option" where
  "check_pricing pricing [] = None"
| "check_pricing pricing (price # prices) =
     (if \<not> re_match_pricing price
      then Some (InvalidItemDefinition (''Pricing is not valid: '' @ pricing))
      else check_pricing pricing prices)"

fun check_vat :: "env \<Rightarrow> string \<Rightarrow> string list \<Rightarrow> exn option" where
  "check_vat E vat [] = None"
| "check_vat E vat (v # vs) =
     (if length v < 2
      then Some (InvalidItemDefinition (''Invalid length for vat: '' @ v))
      else if \<not> list_all (\<lambda>c. 65 \<le> (of_char c :: nat) \<and> (of_char c :: nat) \<le> 90) (take 2 v)
      then Some (InvalidItemDefinition (''Invalid country for vat: '' @ vat))
      else if \<not> float_parses E (drop 2 v)
      then Some (InvalidItemDefinition (''Invalid number part for vat: '' @ vat))
      else check_vat E vat vs)"

text \<open>
  \<^verbatim>\<open>ItemDefinition.__init__\<close>. The new object's \<^verbatim>\<open>data\<close> dictionary is allocated at the
  end of the heap; a raise leaves the heap as it was.
\<close>

definition ItemDefinition_init ::
  "env \<Rightarrow> heap \<Rightarrow> pyval \<Rightarrow> string \<Rightarrow> string \<Rightarrow> pyval \<Rightarrow> pyval \<Rightarrow> pyval \<Rightarrow> pyval
     \<Rightarrow> (exn + ItemDefinition) \<times> heap" where
  "ItemDefinition_init E h item_id pricing vat url title purchasedatetime cp =
     (case check_pricing pricing (split pricing CHR '','') of
        Some e \<Rightarrow> (Inl e, h)
      | None \<Rightarrow>
     (case check_vat E vat (split vat CHR '','') of
        Some e \<Rightarrow> (Inl e, h)
      | None \<Rightarrow>
     (if purchasedatetime \<noteq> PNone \<and> \<not> is_int purchasedatetime
      then (Inl (InvalidItemDefinition
              (''Invalid purchasedatetime %s. This should be a UTC-based epoch timestamp ''
               @ ''in seconds of type int'')), h)
      else (Inr \<lparr>data = length h\<rparr>,
            h @ [[(''article_id'', item_id),
                  (''purchasedatetime'',
                     if purchasedatetime = PNone then PInt (time_time E) else purchasedatetime),
                  (''pricing'', PStr pricing),
                  (''vat'', PStr vat),
                  (''url'', url),
                  (''title'', title),
                  (''cp'', cp)]]))))"

section \<open>LaterPayClient\<close>

record LaterPayClient =
  cp_key :: string
  api_root :: string
  web_root :: string
  shared_secret :: string
  lptoken :: pyval

text \<open>\<^verbatim>\<open>LaterPayClient.__init__\<close>; an argument left out is \<open>None\<close> and takes its default.\<close>

definition LaterPayClient_init ::
  "string \<Rightarrow> string \<Rightarrow> string option \<Rightarrow> string option \<Rightarrow> pyval option \<Rightarrow> LaterPayClient" where
  "LaterPayClient_init cp_key' shared_secret' api_root' web_root' lptoken' =
     \<lparr>cp_key = cp_key',
      api_root = (case api_root' of None \<Rightarrow> ''https://api.laterpay.net'' | Some r \<Rightarrow> r),
      web_root = (case web_root' of None \<Rightarrow> ''https://web.laterpay.net'' | Some r \<Rightarrow> r),
      shared_secret = shared_secret',
      lptoken = (case lptoken' of None \<Rightarrow> PNone | Some t \<Rightarrow> t)\<rparr>"

text \<open>
  Methods whose Python name starts with an underscore keep the name without it:
  \<^verbatim>\<open>_sign_and_encode\<close>, the URL properties, \<^verbatim>\<open>_get_dialog_api_url\<close>, \<^verbatim>\<open>_get_web_url\<close>
  and \<^verbatim>\<open>_make_request\<close>.
\<close>

definition sign_and_encode ::
  "env \<Rightarrow> LaterPayClient \<Rightarrow> dict \<Rightarrow> string \<Rightarrow> string \<Rightarrow> exn + string" where
  "sign_and_encode E c params url method =
     signing_sign_and_encode E (shared_secret c) params url method"

definition access_url :: "LaterPayClient \<Rightarrow> string" where
  "access_url c = api_root c @ ''/access''"

definition add_url :: "LaterPayClient \<Rightarrow> string" where
  "add_url c = api_root c @ ''/add''"

definition identify_url :: "LaterPayClient \<Rightarrow> string" where
  "identify_url c = api_root c @ ''/identify''"

definition gettoken_url :: "LaterPayClient \<Rightarrow> string" where
  "gettoken_url c = api_root c @ ''/gettoken''"

subsection \<open>URL builders\<close>

definition get_gettoken_redirect :: "env \<Rightarrow> LaterPayClient \<Rightarrow> pyval \<Rightarrow> exn + string" where
  "get_gettoken_redirect E c return_to =
     (let url = gettoken_url c;
          d = [(''redir'', return_to), (''cp'', PStr (cp_key c))]
      in case sign_and_encode E c d url ''GET'' of
           Inl e \<Rightarrow> Inl e
         | Inr params \<Rightarrow> Inr (url @ ''?'' @ params))"

definition get_identify_url :: "env \<Rightarrow> LaterPayClient \<Rightarrow> pyval \<Rightarrow> exn + string" where
  "get_identify_url E c identify_callback =
     (let base_url = identify_url c;
          d0 = [(''cp'', PStr (cp_key c))];
          d1 = (if identify_callback \<noteq> PNone
                then AList.update ''callback_url'' identify_callback d0 else d0)
      in case sign_and_encode E c d1 base_url ''GET'' of
           Inl e \<Rightarrow> Inl e
         | Inr params \<Rightarrow> Inr (base_url @ ''?'' @ params))"

text \<open>
  \<^verbatim>\<open>'%sgg' % data.get('show', '')\<close>: the only values stored under \<^verbatim>\<open>'show'\<close> are the
  strings this method builds.
\<close>

definition get_show :: "dict \<Rightarrow> string" where
  "get_show d = (case map_of d ''show'' of Some (PStr s) \<Rightarrow> s | _ \<Rightarrow> [])"

definition ascii_letters :: string where
  "ascii_letters = ''abcdefghijklmnopqrstuvwxyzABCDEFGHIJKLMNOPQRSTUVWXYZ''"

text \<open>
  \<^verbatim>\<open>"".join(random.choice(string.ascii_letters) for x in xrange(10))\<close>: the k-th draw
  picks the letter at the index the environment gives, within the alphabet.
\<close>

definition xdmprefix :: "env \<Rightarrow> string" where
  "xdmprefix E =
     map (\<lambda>k. ascii_letters ! (random_choice E k mod length ascii_letters)) [0..<10]"

definition get_controls_links_url ::
  "env \<Rightarrow> LaterPayClient \<Rightarrow> pyval \<Rightarrow> pyval \<Rightarrow> pyval \<Rightarrow> bool \<Rightarrow> bool \<Rightarrow> bool \<Rightarrow> bool \<Rightarrow> bool \<Rightarrow> bool
     \<Rightarrow> exn + string" where
  "get_controls_links_url E c next_url css_url forcelang show_greeting show_long_greeting
       show_login show_signup show_long_signup use_jsevents =
     (let d0 = [(''next'', next_url)];
          d1 = AList.update ''cp'' (PStr (cp_key c)) d0;
          d2 = (if forcelang \<noteq> PNone then AList.update ''forcelang'' forcelang d1 else d1);
          d3 = (if css_url \<noteq> PNone then AList.update ''css'' css_url d2 else d2);
          d4 = (if use_jsevents then AList.update ''jsevents'' (PStr ''1'') d3 else d3);
          d5 = (if show_long_greeting
                then AList.update ''show'' (PStr (get_show d4 @ ''gg'')) d4
                else if show_greeting
                then AList.update ''show'' (PStr (get_show d4 @ ''g'')) d4
                else d4);
          d6 = (if show_login then AList.update ''show'' (PStr (get_show d5 @ ''l'')) d5 else d5);
          d7 = (if show_long_signup
                then AList.update ''show'' (PStr (get_show d6 @ ''ss'')) d6
                else if show_signup
                then AList.update ''show'' (PStr (get_show d6 @ ''s'')) d6
                else d6);
          d8 = AList.update ''xdmprefix'' (PStr (xdmprefix E)) d7;
          url = web_root c @ ''/controls/links''
      in case sign_and_encode E c d8 url ''GET'' of
           Inl e \<Rightarrow> Inl e
         | Inr params \<Rightarrow> Inr (url @ ''?'' @ params))"

definition get_controls_balance_url :: "env \<Rightarrow> LaterPayClient \<Rightarrow> pyval \<Rightarrow> exn + string" where
  "get_controls_balance_url E c forcelang =
     (let d0 = [(''cp'', PStr (cp_key c))];
          d1 = (if forcelang \<noteq> PNone then AList.update ''forcelang'' forcelang d0 else d0);
          d2 = AList.update ''xdmprefix'' (PStr (xdmprefix E)) d1;
          base_url = web_root c @ ''/controls/balance''
      in case sign_and_encode E c d2 base_url ''GET'' of
           Inl e \<Rightarrow> Inl e
         | Inr encoded_data \<Rightarrow> Inr (base_url @ ''?'' @ encoded_data))"

definition get_dialog_api_url :: "env \<Rightarrow> LaterPayClient \<Rightarrow> string \<Rightarrow> string" where
  "get_dialog_api_url E c url = web_root c @ ''/dialog-api?url='' @ compat_quote_plus E url"

definition get_login_dialog_url :: "env \<Rightarrow> LaterPayClient \<Rightarrow> string \<Rightarrow> bool \<Rightarrow> string" where
  "get_login_dialog_url E c next_url use_jsevents =
     (let url = web_root c @ ''/account/dialog/login?next='' @ compat_quote_plus E next_url
                @ (if use_jsevents then ''&jsevents=1'' else [])
                @ (''&cp='' @ cp_key c)
      in get_dialog_api_url E c url)"

definition get_signup_dialog_url :: "env \<Rightarrow> LaterPayClient \<Rightarrow> string \<Rightarrow> bool \<Rightarrow> string" where
  "get_signup_dialog_url E c next_url use_jsevents =
     (let url = web_root c @ ''/account/dialog/signup?next='' @ compat_quote_plus E next_url
                @ (if use_jsevents then ''&jsevents=1'' else [])
                @ (''&cp='' @ cp_key c)
      in get_dialog_api_url E c url)"

definition get_logout_dialog_url :: "env \<Rightarrow> LaterPayClient \<Rightarrow> string \<Rightarrow> bool \<Rightarrow> string" where
  "get_logout_dialog_url E c next_url use_jsevents =
     (let url = web_root c @ ''/account/dialog/logout?next='' @ compat_quote_plus E next_url
                @ (if use_jsevents then ''&jsevents=1'' else [])
                @ (''&cp='' @ cp_key c)
      in get_dialog_api_url E c url)"

subsection \<open>Buy and add URLs\<close>

text \<open>
  \<^verbatim>\<open>copy.copy(d)\<close> allocates a new dictionary with the entries of the old one and yields
  its reference; \<^verbatim>\<open>d[k] = v\<close> writes into the cell the reference names.
\<close>

definition copy_copy :: "heap \<Rightarrow> nat \<Rightarrow> heap \<times> nat" where
  "copy_copy h r = (h @ [h ! r], length h)"

definition setitem :: "heap \<Rightarrow> nat \<Rightarrow> string \<Rightarrow> pyval \<Rightarrow> heap" where
  "setitem h r k v = h[r := AList.update k v (h ! r)]"

text \<open>
  \<^verbatim>\<open>_get_web_url\<close>. \<open>transaction_reference\<close> is \<open>None\<close> or a string; the test
  \<^verbatim>\<open>if transaction_reference:\<close> holds for a string that is not empty. The heap is
  returned on every path, a raise included: the copy exists by then.
\<close>

definition get_web_url ::
  "env \<Rightarrow> heap \<Rightarrow> LaterPayClient \<Rightarrow> ItemDefinition \<Rightarrow> string \<Rightarrow> string option \<Rightarrow> bool \<Rightarrow> bool
     \<Rightarrow> bool \<Rightarrow> string option \<Rightarrow> bool \<Rightarrow> pyval \<Rightarrow> (exn + string) \<times> heap" where
  "get_web_url E h c item_definition page_type product_key dialog use_jsevents
       skip_add_to_invoice transaction_reference consumable expires_at =
     (let (h0, d) = copy_copy h (data item_definition);
          h1 = (if use_jsevents then setitem h0 d ''jsevents'' (PInt 1) else h0);
          h2 = (if consumable then setitem h1 d ''consumable'' (PInt 1) else h1);
          h3 = (if expires_at \<noteq> PNone then setitem h2 d ''expires_at'' expires_at else h2)
      in case (case transaction_reference of
                 None \<Rightarrow> Inr h3
               | Some tref \<Rightarrow>
                   if tref \<noteq> [] then
                     if length tref < 6
                     then Inl (APIException ''Transaction reference is not unique enough'')
                     else Inr (setitem h3 d ''tref'' (PStr tref))
                   else Inr h3) of
           Inl e \<Rightarrow> (Inl e, h3)
         | Inr h4 \<Rightarrow>
            (let h5 = (if skip_add_to_invoice
                       then setitem h4 d ''skip_add_to_invoice'' (PInt 1) else h4);
                 prefix = (if dialog then web_root c @ ''/'' @ ''dialog'' else web_root c);
                 base_url = (case product_key of
                               Some pk \<Rightarrow> prefix @ ''/'' @ pk @ ''/'' @ page_type
                             | None \<Rightarrow> prefix @ ''/'' @ page_type)
             in case sign_and_encode E c (h5 ! d) base_url ''GET'' of
                  Inl e \<Rightarrow> (Inl e, h5)
                | Inr params \<Rightarrow>
                    (Inr (get_dialog_api_url E c (base_url @ ''?'' @ params)), h5)))"

definition get_buy_url ::
  "env \<Rightarrow> heap \<Rightarrow> LaterPayClient \<Rightarrow> ItemDefinition \<Rightarrow> string option \<Rightarrow> bool \<Rightarrow> bool
     \<Rightarrow> bool \<Rightarrow> string option \<Rightarrow> bool \<Rightarrow> pyval \<Rightarrow> (exn + string) \<times> heap" where
  "get_buy_url E h c item_definition product_key dialog use_jsevents
       skip_add_to_invoice transaction_reference consumable expires_at =
     get_web_url E h c item_definition ''buy'' product_key dialog use_jsevents
       skip_add_to_invoice transaction_reference consumable expires_at"

definition get_add_url ::
  "env \<Rightarrow> heap \<Rightarrow> LaterPayClient \<Rightarrow> ItemDefinition \<Rightarrow> string option \<Rightarrow> bool \<Rightarrow> bool
     \<Rightarrow> bool \<Rightarrow> string option \<Rightarrow> bool \<Rightarrow> pyval \<Rightarrow> (exn + string) \<times> heap" where
  "get_add_url E h c item_definition product_key dialog use_jsevents
       skip_add_to_invoice transaction_reference consumable expires_at =
     get_web_url E h c item_definition ''add'' product_key dialog use_jsevents
       skip_add_to_invoice transaction_reference consumable expires_at"

subsection \<open>Requests\<close>

text \<open>
  The end of \<^verbatim>\<open>_make_request\<close>, from \<^verbatim>\<open>if 'new_token' in resp\<close> on: a refreshed token is
  adopted first, a reported \<^verbatim>\<open>invalid_token\<close> then clears the token. \<^verbatim>\<open>json.loads\<close> may
  yield a value that is no dictionary; the membership test and \<^verbatim>\<open>resp.get\<close> then raise
  and the client is left as it was.
\<close>

fun adopt_token :: "LaterPayClient \<Rightarrow> pyval \<Rightarrow> (exn + dict) \<times> LaterPayClient" where
  "adopt_token c (PDict resp) =
     (let c1 = (case map_of resp ''new_token'' of
                  Some t \<Rightarrow> c\<lparr>lptoken := t\<rparr>
                | None \<Rightarrow> c);
          c2 = (if map_of resp ''status'' = Some (PStr ''invalid_token'')
                then c1\<lparr>lptoken := PNone\<rparr> else c1)
      in (Inr resp, c2))"
| "adopt_token c (PList xs) =
     (if PStr ''new_token'' \<in> set xs then (Inl TypeError, c) else (Inl AttributeError, c))"
| "adopt_token c (PTuple xs) =
     (if PStr ''new_token'' \<in> set xs then (Inl TypeError, c) else (Inl AttributeError, c))"
| "adopt_token c (PStr s) =
     (if contains s ''new_token'' then (Inl TypeError, c) else (Inl AttributeError, c))"
| "adopt_token c v = (Inl TypeError, c)"

text \<open>
  \<^verbatim>\<open>_make_request\<close>, in the three steps of its body. The request: a \<^verbatim>\<open>POST\<close> carries
  the signed parameters as its data, any other method in the query string of the URL.
\<close>

definition build_request :: "string \<Rightarrow> string \<Rightarrow> string \<Rightarrow> request" where
  "build_request url params' method =
     (let headers = [(''X-LP-APIVersion'', PInt 2),
                     (''User-Agent'', PStr ''LaterPay Client - Python - v0.2'')]
      in if method = ''POST''
         then \<lparr>req_url = url, req_data = Some params', req_headers = headers\<rparr>
         else \<lparr>req_url = url @ ''?'' @ params', req_data = None, req_headers = headers\<rparr>)"

text \<open>
  The \<^verbatim>\<open>try\<close> statement: a \<^verbatim>\<open>URLError\<close> and any other exception of the transport are
  caught and replaced by a response of their own; \<^verbatim>\<open>json.loads\<close> runs in the \<^verbatim>\<open>else\<close>
  branch, where its exception is not caught.
\<close>

definition read_response :: "env \<Rightarrow> request \<Rightarrow> exn + pyval" where
  "read_response E req =
     (case compat_urlopen_read E req of
        URLError \<Rightarrow> Inr (PDict [(''status'', PStr ''connection_error'')])
      | OtherError \<Rightarrow> Inr (PDict [(''status'', PStr ''unexpected error'')])
      | Body response \<Rightarrow> json_loads E response)"

text \<open>Signing comes first, and its failure is raised before anything is sent.\<close>

definition make_request ::
  "env \<Rightarrow> LaterPayClient \<Rightarrow> string \<Rightarrow> dict \<Rightarrow> string \<Rightarrow> (exn + dict) \<times> LaterPayClient" where
  "make_request E c url params method =
     (case sign_and_encode E c params url method of
        Inl e \<Rightarrow> (Inl e, c)
      | Inr params' \<Rightarrow>
          (case read_response E (build_request url params' method) of
             Inl e \<Rightarrow> (Inl e, c)
           | Inr resp \<Rightarrow> adopt_token c resp))"

definition has_token :: "LaterPayClient \<Rightarrow> bool" where
  "has_token c = (lptoken c \<noteq> PNone)"

definition add_metered_access ::
  "env \<Rightarrow> LaterPayClient \<Rightarrow> pyval \<Rightarrow> pyval \<Rightarrow> pyval \<Rightarrow> (exn + unit) \<times> LaterPayClient" where
  "add_metered_access E c article_id threshold product_key =
     (let params = [(''lptoken'', lptoken c),
                    (''cp'', PStr (cp_key c)),
                    (''threshold'', threshold),
                    (''feature'', PStr ''metered''),
                    (''period'', PStr ''monthly''),
                    (''article_id'', article_id)];
          params1 = (if product_key \<noteq> PNone
                     then AList.update ''product'' product_key params else params)
      in case make_request E c (add_url c) params1 ''POST'' of
           (Inl e, c') \<Rightarrow> (Inl e, c')
         | (Inr resp, c') \<Rightarrow>
             (case map_of resp ''status'' of
                None \<Rightarrow> (Inl (KeyError ''status''), c')
              | Some s \<Rightarrow>
                  if s = PStr ''invalid_token'' then (Inl InvalidTokenException, c')
                  else (Inr (), c')))"

text \<open>
  The first half of \<^verbatim>\<open>get_metered_access\<close>: a single id becomes a one-element list, then
  the parameters of the request are put together.
\<close>

definition metered_access_params :: "LaterPayClient \<Rightarrow> pyval \<Rightarrow> pyval \<Rightarrow> pyval \<Rightarrow> dict" where
  "metered_access_params c article_ids threshold product_key =
     (let article_ids1 = (if \<not> is_list_or_tuple article_ids
                          then PList [article_ids] else article_ids);
          params = [(''lptoken'', lptoken c),
                    (''cp'', PStr (cp_key c)),
                    (''article_id'', article_ids1),
                    (''feature'', PStr ''metered''),
                    (''threshold'', threshold),
                    (''period'', PStr ''monthly'')]
      in if product_key \<noteq> PNone
         then AList.update ''product'' product_key params else params)"

definition get_metered_access ::
  "env \<Rightarrow> LaterPayClient \<Rightarrow> pyval \<Rightarrow> pyval \<Rightarrow> pyval
     \<Rightarrow> (exn + pyval \<times> pyval \<times> pyval) \<times> LaterPayClient" where
  "get_metered_access E c article_ids threshold product_key =
     (case make_request E c (access_url c)
             (metered_access_params c article_ids threshold product_key) ''GET'' of
        (Inl e, c') \<Rightarrow> (Inl e, c')
      | (Inr resp, c') \<Rightarrow>
          (let subs = (case map_of resp ''subs'' of Some v \<Rightarrow> v | None \<Rightarrow> PList [])
           in case map_of resp ''status'' of
                None \<Rightarrow> (Inl (KeyError ''status''), c')
              | Some s \<Rightarrow>
                  if s = PStr ''invalid_token'' then (Inl InvalidTokenException, c')
                  else if s \<noteq> PStr ''ok'' then (Inl (Exception []), c')
                  else
                    (let exceeded = (case map_of resp ''exceeded'' of
                                       Some v \<Rightarrow> v | None \<Rightarrow> PBool False)
                     in case map_of resp ''articles'' of
                          None \<Rightarrow> (Inl (KeyError ''articles''), c')
                        | Some articles \<Rightarrow> (Inr (articles, exceeded, subs), c'))))"

text \<open>The first half of \<^verbatim>\<open>get_access\<close>, likewise.\<close>

definition access_params :: "LaterPayClient \<Rightarrow> pyval \<Rightarrow> pyval \<Rightarrow> dict" where
  "access_params c article_ids product_key =
     (let article_ids1 = (if \<not> is_list_or_tuple article_ids
                          then PList [article_ids] else article_ids);
          params = [(''lptoken'', lptoken c),
                    (''cp'', PStr (cp_key c)),
                    (''article_id'', article_ids1)]
      in if product_key \<noteq> PNone
         then AList.update ''product'' product_key params else params)"

definition get_access ::
  "env \<Rightarrow> LaterPayClient \<Rightarrow> pyval \<Rightarrow> pyval \<Rightarrow> (exn + dict) \<times> LaterPayClient" where
  "get_access E c article_ids product_key =
     (case make_request E c (access_url c) (access_params c article_ids product_key) ''GET'' of
        (Inl e, c') \<Rightarrow> (Inl e, c')
      | (Inr resp, c') \<Rightarrow>
          (let allowed_statuses = [PStr ''ok'', PStr ''invalid_token'',
                                   PStr ''connection_error'']
           in case map_of resp ''status'' of
                None \<Rightarrow> (Inl (KeyError ''status''), c')
              | Some s \<Rightarrow>
                  if s \<notin> set allowed_statuses then (Inl (Exception [s]), c')
                  else (Inr resp, c')))"

section \<open>An environment to run the client in\<close>

text \<open>
  The library functions behind the environment, for running the client on examples.
  \<open>urllib_quote_plus\<close> is Python 2's \<^verbatim>\<open>urllib.quote_plus\<close>: letters, digits and
  \<^verbatim>\<open>_.-\<close> stay, a space becomes \<^verbatim>\<open>+\<close>, any other byte its \<^verbatim>\<open>%XX\<close> code.
\<close>

definition hex_digit :: "nat \<Rightarrow> char" where
  "hex_digit n = ''0123456789ABCDEF'' ! (n mod 16)"

definition is_az :: "char \<Rightarrow> bool" where
  "is_az c = (97 \<le> (of_char c :: nat) \<and> (of_char c :: nat) \<le> 122)"

definition quote_char :: "char \<Rightarrow> string" where
  "quote_char c =
     (if is_AZ c \<or> is_az c \<or> is_digit c \<or> c = CHR ''_'' \<or> c = CHR ''.'' \<or> c = CHR ''-''
      then [c]
      else if c = CHR '' '' then ''+''
      else [CHR ''%'', hex_digit ((of_char c :: nat) div 16), hex_digit (of_char c :: nat)])"

definition urllib_quote_plus :: "string \<Rightarrow> string" where
  "urllib_quote_plus s = concat (map quote_char s)"

text \<open>
  Whether Python 2's \<^verbatim>\<open>float(s)\<close> parses: blanks around, a sign, then \<^verbatim>\<open>inf\<close>,
  \<^verbatim>\<open>infinity\<close> or \<^verbatim>\<open>nan\<close> in any case, or digits with an optional point and an optional
  exponent, at least one digit before or after the point.
\<close>

definition is_space :: "char \<Rightarrow> bool" where
  "is_space c = (c = CHR '' '' \<or> (9 \<le> (of_char c :: nat) \<and> (of_char c :: nat) \<le> 13))"

definition strip :: "string \<Rightarrow> string" where
  "strip s = dropWhile is_space (rev (dropWhile is_space (rev s)))"

definition lower :: "char \<Rightarrow> char" where
  "lower c = (if is_AZ c then char_of ((of_char c :: nat) + 32) else c)"

definition drop_sign :: "string \<Rightarrow> string" where
  "drop_sign s =
     (case s of [] \<Rightarrow> [] | c # cs \<Rightarrow> if c = CHR ''+'' \<or> c = CHR ''-'' then cs else s)"

definition float_exponent :: "string \<Rightarrow> bool" where
  "float_exponent s =
     (case s of
        [] \<Rightarrow> True
      | c # cs \<Rightarrow> (c = CHR ''e'' \<or> c = CHR ''E'')
                 \<and> drop_sign cs \<noteq> [] \<and> list_all is_digit (drop_sign cs))"

definition float_syntax :: "string \<Rightarrow> bool" where
  "float_syntax s =
     (let u = drop_sign (strip s);
          l = map lower u
      in if l = ''inf'' \<or> l = ''infinity'' \<or> l = ''nan'' then True
         else
          (let ip = takeWhile is_digit u;
               r1 = dropWhile is_digit u;
               fp = (case r1 of [] \<Rightarrow> []
                     | c # cs \<Rightarrow> if c = CHR ''.'' then takeWhile is_digit cs else []);
               r2 = (case r1 of [] \<Rightarrow> []
                     | c # cs \<Rightarrow> if c = CHR ''.'' then dropWhile is_digit cs else r1)
           in (ip \<noteq> [] \<or> fp \<noteq> []) \<and> float_exponent r2))"

text \<open>
  A signer for the examples: it fails on an empty secret, as the spec says the signer
  does, and signs anything else with one fixed query string.
\<close>

definition stub_signature :: string where
  "stub_signature = ''ts=1400000000&hmac=5f2a''"

definition stub_sign :: "string \<Rightarrow> dict \<Rightarrow> string \<Rightarrow> string \<Rightarrow> exn + string" where
  "stub_sign secret params url method =
     (if secret = [] then Inl (SigningError ''no secret'') else Inr stub_signature)"

text \<open>
  The environment of a stubbed transport: \<open>t\<close> is how every call of the transport ends,
  \<open>v\<close> what \<^verbatim>\<open>json.loads\<close> makes of a body.
\<close>

definition stub_env :: "transport \<Rightarrow> pyval \<Rightarrow> env" where
  "stub_env t v =
     \<lparr>signing_sign_and_encode = stub_sign,
      compat_quote_plus = urllib_quote_plus,
      compat_urlopen_read = (\<lambda>req. t),
      json_loads = (\<lambda>body. Inr v),
      time_time = 1400000000,
      float_parses = float_syntax,
      random_choice = (\<lambda>k. 7 * k + 3)\<rparr>"

definition env0 :: env where
  "env0 = stub_env URLError PNone"

definition client0 :: LaterPayClient where
  "client0 = LaterPayClient_init ''cp1'' ''secret'' None None None"

definition client1 :: LaterPayClient where
  "client1 = LaterPayClient_init ''cp1'' ''secret'' None None (Some (PStr ''old-token''))"

definition item0_init :: "(exn + ItemDefinition) \<times> heap" where
  "item0_init =
     ItemDefinition_init env0 [] (PStr ''a1'') ''EUR2,USD3'' ''DE19''
       (PStr ''http://example.com/a1'') (PStr ''Title'') PNone PNone"

definition heap0 :: heap where
  "heap0 = snd item0_init"

definition item0 :: ItemDefinition where
  "item0 = \<lparr>data = 0\<rparr>"

text \<open>
  A signer that looks at what it signs: it refuses parameters whose \<^verbatim>\<open>article_id\<close> is
  not a list. \<open>list_env v\<close> is the stubbed transport that delivers \<open>v\<close>, with this signer.
\<close>

definition list_sign :: "string \<Rightarrow> dict \<Rightarrow> string \<Rightarrow> string \<Rightarrow> exn + string" where
  "list_sign secret params url method =
     (case map_of params ''article_id'' of
        Some (PList ids) \<Rightarrow> Inr stub_signature
      | _ \<Rightarrow> Inl (SigningError ''article_id is not a list''))"

definition list_env :: "pyval \<Rightarrow> env" where
  "list_env v = (stub_env (Body ''{}'') v)\<lparr>signing_sign_and_encode := list_sign\<rparr>"

definition client_no_secret :: LaterPayClient where
  "client_no_secret = LaterPayClient_init ''cp1'' [] None None None"

section \<open>What the specification asks of a built URL\<close>

text \<open>
  The specification's URL builder assembles a parameter map, calls the signer on it and
  returns the full URL with the signed query string appended. \<open>spec_signed_url\<close> says
  that \<open>r\<close> is such a result for the base URL \<open>base\<close> and the parameter map \<open>d\<close>: the
  signer's failure, or the base URL, a question mark and the signer's query string.
  \<open>spec_signed_dialog_url\<close> says the same of a dialog flow, whose signed URL is wrapped
  in the dialog-api URL. \<open>spec_carries_signature\<close> says that the query string \<open>sg\<close> the
  signer produced stands in the URL \<open>u\<close>, as it is or percent-encoded by the wrapper.
\<close>

definition spec_signed_url ::
  "env \<Rightarrow> LaterPayClient \<Rightarrow> string \<Rightarrow> dict \<Rightarrow> exn + string \<Rightarrow> bool" where
  "spec_signed_url E c base d r =
     (r = (case signing_sign_and_encode E (shared_secret c) d base ''GET'' of
             Inl e \<Rightarrow> Inl e
           | Inr q \<Rightarrow> Inr (base @ ''?'' @ q)))"

definition spec_signed_dialog_url ::
  "env \<Rightarrow> LaterPayClient \<Rightarrow> string \<Rightarrow> dict \<Rightarrow> exn + string \<Rightarrow> bool" where
  "spec_signed_dialog_url E c base d r =
     (r = (case signing_sign_and_encode E (shared_secret c) d base ''GET'' of
             Inl e \<Rightarrow> Inl e
           | Inr q \<Rightarrow> Inr (web_root c @ ''/dialog-api?url=''
                              @ compat_quote_plus E (base @ ''?'' @ q))))"

definition spec_carries_signature :: "env \<Rightarrow> string \<Rightarrow> string \<Rightarrow> bool" where
  "spec_carries_signature E u sg = (contains u sg \<or> contains u (compat_quote_plus E sg))"

section \<open>The session token\<close>

lemma adopt_token_dict:
  "adopt_token c (PDict r) =
     (Inr r, c\<lparr>lptoken := (if map_of r ''status'' = Some (PStr ''invalid_token'') then PNone
                            else case map_of r ''new_token'' of Some t \<Rightarrow> t | None \<Rightarrow> lptoken c)\<rparr>)"
  by (simp add: Let_def split: option.split)

lemma make_request_dict:
  assumes "sign_and_encode E c params u m = Inr q"
      and "read_response E (build_request u q m) = Inr (PDict r)"
  shows "make_request E c u params m =
     (Inr r, c\<lparr>lptoken := (if map_of r ''status'' = Some (PStr ''invalid_token'') then PNone
                            else case map_of r ''new_token'' of Some t \<Rightarrow> t | None \<Rightarrow> lptoken c)\<rparr>)"
  using assms by (simp add: make_request_def adopt_token_dict del: adopt_token.simps)

lemma stub_sign_client1:
  "sign_and_encode (stub_env t v) client1 ps u m = Inr stub_signature"
  by (simp add: sign_and_encode_def stub_env_def stub_sign_def client1_def
      LaterPayClient_init_def)

lemma stub_sign_client0:
  "sign_and_encode (stub_env t v) client0 ps u m = Inr stub_signature"
  by (simp add: sign_and_encode_def stub_env_def stub_sign_def client0_def
      LaterPayClient_init_def)

lemma stub_read_body: "read_response (stub_env (Body b) v) rq = Inr v"
  by (simp add: read_response_def stub_env_def)

text \<open>
  C1, as the specification states it: whenever the response carries \<^verbatim>\<open>new_token\<close> the
  stored token is that value after the call, and whenever its status is
  \<^verbatim>\<open>invalid_token\<close> the stored token is absent. The two halves contradict each other on
  a response that has both: \<^verbatim>\<open>_make_request\<close> adopts the new token and then clears it,
  so the stored token is \<open>None\<close> and not the refreshed one.
\<close>

theorem make_request_token_counterexample:
  "map_of [(''status'', PStr ''invalid_token''), (''new_token'', PStr ''fresh'')] ''new_token''
     = Some (PStr ''fresh'')
   \<and> lptoken (snd (make_request
       (stub_env (Body ''{}'')
          (PDict [(''status'', PStr ''invalid_token''), (''new_token'', PStr ''fresh'')]))
       client1 (access_url client1) [] ''GET'')) \<noteq> PStr ''fresh''"
  by (simp add: make_request_dict [OF stub_sign_client1 stub_read_body])

text \<open>
  C1, amended: when \<^verbatim>\<open>_make_request\<close> has signed its parameters and the transport has
  delivered the response map \<open>r\<close>, the call returns \<open>r\<close>; if the status of \<open>r\<close> is
  \<^verbatim>\<open>invalid_token\<close> the stored token is \<open>None\<close> afterwards, whatever it was and whether
  or not \<open>r\<close> carries \<^verbatim>\<open>new_token\<close>; if the status is anything else and \<open>r\<close> carries
  \<^verbatim>\<open>new_token\<close>, the stored token is that value; and if neither holds the token is
  what it was.
\<close>

theorem make_request_token_lifecycle:
  assumes "sign_and_encode E c params u m = Inr q"
      and "read_response E (build_request u q m) = Inr (PDict r)"
  shows "fst (make_request E c u params m) = Inr r
         \<and> (map_of r ''status'' = Some (PStr ''invalid_token'')
              \<longrightarrow> lptoken (snd (make_request E c u params m)) = PNone)
         \<and> (map_of r ''status'' \<noteq> Some (PStr ''invalid_token'')
              \<longrightarrow> (\<forall>t. map_of r ''new_token'' = Some t
                       \<longrightarrow> lptoken (snd (make_request E c u params m)) = t))
         \<and> (map_of r ''status'' \<noteq> Some (PStr ''invalid_token'')
              \<longrightarrow> map_of r ''new_token'' = None
              \<longrightarrow> lptoken (snd (make_request E c u params m)) = lptoken c)"
  by (simp add: make_request_dict [OF assms])

theorem make_request_token_lifecycle_witness:
  "lptoken (snd (make_request
       (stub_env (Body ''{}'') (PDict [(''status'', PStr ''ok''), (''new_token'', PStr ''fresh'')]))
       client1 (access_url client1) [] ''GET'')) = PStr ''fresh''
   \<and> lptoken client1 = PStr ''old-token''"
proof -
  let ?r = "[(''status'', PStr ''ok''), (''new_token'', PStr ''fresh'')]"
  let ?E = "stub_env (Body ''{}'') (PDict ?r)"
  have s: "sign_and_encode ?E client1 [] (access_url client1) ''GET'' = Inr stub_signature"
    by (rule stub_sign_client1)
  have r: "read_response ?E (build_request (access_url client1) stub_signature ''GET'')
             = Inr (PDict ?r)"
    by (rule stub_read_body)
  from make_request_token_lifecycle [OF s r] show ?thesis
    by (simp add: client1_def LaterPayClient_init_def)
qed

lemma stub_read_urlerror:
  "read_response (stub_env URLError v) rq = Inr (PDict [(''status'', PStr ''connection_error'')])"
  by (simp add: read_response_def stub_env_def)

lemma stub_read_othererror:
  "read_response (stub_env OtherError v) rq = Inr (PDict [(''status'', PStr ''unexpected error'')])"
  by (simp add: read_response_def stub_env_def)

section \<open>Transport failures\<close>

text \<open>
  C5, as the specification states it: a transport failure that is no \<^verbatim>\<open>URLError\<close> yields
  the response map whose status is \<^verbatim>\<open>unexpected_error\<close>. The status the code gives is
  \<^verbatim>\<open>unexpected error\<close>, with a space.
\<close>

theorem make_request_transport_counterexample:
  "compat_urlopen_read (stub_env OtherError PNone)
       (build_request (access_url client0) stub_signature ''GET'') = OtherError
   \<and> make_request (stub_env OtherError PNone) client0 (access_url client0) [] ''GET''
       = (Inr [(''status'', PStr ''unexpected error'')], client0)
   \<and> fst (make_request (stub_env OtherError PNone) client0 (access_url client0) [] ''GET'')
       \<noteq> Inr [(''status'', PStr ''unexpected_error'')]"
proof -
  have "compat_urlopen_read (stub_env OtherError PNone)
          (build_request (access_url client0) stub_signature ''GET'') = OtherError"
    by (simp add: stub_env_def)
  moreover have "make_request (stub_env OtherError PNone) client0 (access_url client0) [] ''GET''
       = (Inr [(''status'', PStr ''unexpected error'')], client0)"
    by (simp add: make_request_dict [OF stub_sign_client0 stub_read_othererror])
  ultimately show ?thesis
    by simp
qed

text \<open>
  C5, amended: once \<^verbatim>\<open>_make_request\<close> has signed its parameters, a \<^verbatim>\<open>URLError\<close> of the
  transport is not raised but makes the call return the map with the one entry
  \<^verbatim>\<open>status = connection_error\<close>; any other exception of the transport makes it return
  the map with the one entry \<^verbatim>\<open>status = unexpected error\<close>; in both cases the client is
  left as it was. When the transport delivers a body that \<^verbatim>\<open>json.loads\<close> decodes to a
  map, the call returns that map.
\<close>

theorem make_request_transport_errors:
  assumes "sign_and_encode E c params u m = Inr q"
  shows "(compat_urlopen_read E (build_request u q m) = URLError
            \<longrightarrow> make_request E c u params m
                  = (Inr [(''status'', PStr ''connection_error'')], c))
         \<and> (compat_urlopen_read E (build_request u q m) = OtherError
            \<longrightarrow> make_request E c u params m
                  = (Inr [(''status'', PStr ''unexpected error'')], c))
         \<and> (\<forall>b r. compat_urlopen_read E (build_request u q m) = Body b
                  \<longrightarrow> json_loads E b = Inr (PDict r)
                  \<longrightarrow> fst (make_request E c u params m) = Inr r)"
proof (intro conjI impI allI)
  assume "compat_urlopen_read E (build_request u q m) = URLError"
  then have "read_response E (build_request u q m)
               = Inr (PDict [(''status'', PStr ''connection_error'')])"
    by (simp add: read_response_def)
  from make_request_dict [OF assms this]
  show "make_request E c u params m = (Inr [(''status'', PStr ''connection_error'')], c)"
    by simp
next
  assume "compat_urlopen_read E (build_request u q m) = OtherError"
  then have "read_response E (build_request u q m)
               = Inr (PDict [(''status'', PStr ''unexpected error'')])"
    by (simp add: read_response_def)
  from make_request_dict [OF assms this]
  show "make_request E c u params m = (Inr [(''status'', PStr ''unexpected error'')], c)"
    by simp
next
  fix b r
  assume "compat_urlopen_read E (build_request u q m) = Body b"
     and "json_loads E b = Inr (PDict r)"
  then have "read_response E (build_request u q m) = Inr (PDict r)"
    by (simp add: read_response_def)
  from make_request_dict [OF assms this]
  show "fst (make_request E c u params m) = Inr r"
    by simp
qed

theorem make_request_transport_errors_witness:
  "make_request (stub_env URLError PNone) client0 (access_url client0) [] ''GET''
     = (Inr [(''status'', PStr ''connection_error'')], client0)"
proof -
  let ?E = "stub_env URLError PNone"
  have s: "sign_and_encode ?E client0 [] (access_url client0) ''GET'' = Inr stub_signature"
    by (rule stub_sign_client0)
  have t: "compat_urlopen_read ?E (build_request (access_url client0) stub_signature ''GET'')
             = URLError"
    by (simp add: stub_env_def)
  from make_request_transport_errors [OF s] t show ?thesis
    by blast
qed

section \<open>get_access and get_metered_access\<close>

text \<open>
  C3: let \<open>r\<close> be the response map that \<^verbatim>\<open>_make_request\<close> hands to \<^verbatim>\<open>get_access\<close>, and
  \<open>s\<close> its status. \<^verbatim>\<open>get_access\<close> raises \<^verbatim>\<open>Exception(s)\<close> if and only if \<open>s\<close> is none
  of \<^verbatim>\<open>ok\<close>, \<^verbatim>\<open>invalid_token\<close> and \<^verbatim>\<open>connection_error\<close>; otherwise it returns \<open>r\<close>
  unchanged.
\<close>

theorem get_access_status:
  assumes "make_request E c (access_url c) (access_params c article_ids product_key) ''GET''
             = (Inr r, c')"
      and "map_of r ''status'' = Some s"
  shows "(get_access E c article_ids product_key = (Inl (Exception [s]), c')
            \<longleftrightarrow> s \<notin> {PStr ''ok'', PStr ''invalid_token'', PStr ''connection_error''})
         \<and> (s \<in> {PStr ''ok'', PStr ''invalid_token'', PStr ''connection_error''}
            \<longrightarrow> get_access E c article_ids product_key = (Inr r, c'))"
  using assms by (auto simp: get_access_def)

theorem get_access_status_witness:
  "get_access
     (stub_env (Body ''{}'')
        (PDict [(''status'', PStr ''ok''), (''articles'', PDict [(''abc123'', PBool True)])]))
     client0 (PList [PStr ''abc123'']) PNone
     = (Inr [(''status'', PStr ''ok''), (''articles'', PDict [(''abc123'', PBool True)])], client0)
   \<and> get_access (stub_env (Body ''{}'') (PDict [(''status'', PStr ''teapot'')]))
       client0 (PList [PStr ''x'']) PNone
     = (Inl (Exception [PStr ''teapot'']), client0)"
proof -
  let ?r = "[(''status'', PStr ''ok''), (''articles'', PDict [(''abc123'', PBool True)])]"
  let ?E = "stub_env (Body ''{}'') (PDict ?r)"
  let ?F = "stub_env (Body ''{}'') (PDict [(''status'', PStr ''teapot'')])"
  have c0: "client0\<lparr>lptoken := lptoken client0\<rparr> = client0"
    by simp
  have a: "make_request ?E client0 (access_url client0)
             (access_params client0 (PList [PStr ''abc123'']) PNone) ''GET'' = (Inr ?r, client0)"
    using make_request_dict [OF stub_sign_client0 stub_read_body, of "''{}''" ?r] by simp
  have b: "make_request ?F client0 (access_url client0)
             (access_params client0 (PList [PStr ''x'']) PNone) ''GET''
             = (Inr [(''status'', PStr ''teapot'')], client0)"
    using make_request_dict [OF stub_sign_client0 stub_read_body, of "''{}''" "[(''status'', PStr ''teapot'')]"] by simp
  have sa: "map_of ?r ''status'' = Some (PStr ''ok'')" by simp
  have sb: "map_of [(''status'', PStr ''teapot'')] ''status'' = Some (PStr ''teapot'')" by simp
  from get_access_status [OF a sa] get_access_status [OF b sb] show ?thesis
    by simp
qed

lemma metered_access_params_single:
  "\<not> is_list_or_tuple x \<Longrightarrow>
     metered_access_params c x threshold product_key
       = metered_access_params c (PList [x]) threshold product_key"
  by (simp add: metered_access_params_def)

lemma metered_access_params_article_id:
  "map_of (metered_access_params c x threshold product_key) ''article_id''
     = Some (if \<not> is_list_or_tuple x then PList [x] else x)"
  by (simp add: metered_access_params_def Let_def update_conv')

lemma access_params_single:
  "\<not> is_list_or_tuple x \<Longrightarrow>
     access_params c x product_key = access_params c (PList [x]) product_key"
  by (simp add: access_params_def)

lemma access_params_article_id:
  "map_of (access_params c x product_key) ''article_id''
     = Some (if \<not> is_list_or_tuple x then PList [x] else x)"
  by (simp add: access_params_def Let_def update_conv')

text \<open>
  C4: \<^verbatim>\<open>get_metered_access\<close> puts a single article id (a value that is neither a list
  nor a tuple) into a one-element list before it assembles the request. Let \<open>r\<close> be the
  response map \<^verbatim>\<open>_make_request\<close> hands back and \<open>s\<close> its status: the call raises
  \<^verbatim>\<open>InvalidTokenException\<close> when \<open>s\<close> is \<^verbatim>\<open>invalid_token\<close>, raises a bare \<^verbatim>\<open>Exception\<close>
  when \<open>s\<close> is anything else but \<^verbatim>\<open>ok\<close>, and for \<^verbatim>\<open>ok\<close> returns the articles of \<open>r\<close>,
  its \<^verbatim>\<open>exceeded\<close> field or \<open>False\<close>, and its \<^verbatim>\<open>subs\<close> field or the empty list.
\<close>

theorem get_metered_access_result:
  assumes "make_request E c (access_url c)
             (metered_access_params c article_ids threshold product_key) ''GET'' = (Inr r, c')"
      and "map_of r ''status'' = Some s"
  shows "(\<not> is_list_or_tuple article_ids
            \<longrightarrow> map_of (metered_access_params c article_ids threshold product_key) ''article_id''
                  = Some (PList [article_ids])
                \<and> get_metered_access E c article_ids threshold product_key
                  = get_metered_access E c (PList [article_ids]) threshold product_key)
         \<and> (s = PStr ''invalid_token''
            \<longrightarrow> get_metered_access E c article_ids threshold product_key
                  = (Inl InvalidTokenException, c'))
         \<and> (s \<noteq> PStr ''invalid_token'' \<longrightarrow> s \<noteq> PStr ''ok''
            \<longrightarrow> get_metered_access E c article_ids threshold product_key
                  = (Inl (Exception []), c'))
         \<and> (s = PStr ''ok''
            \<longrightarrow> (\<forall>a. map_of r ''articles'' = Some a
                  \<longrightarrow> get_metered_access E c article_ids threshold product_key
                      = (Inr (a,
                              (case map_of r ''exceeded'' of Some v \<Rightarrow> v | None \<Rightarrow> PBool False),
                              (case map_of r ''subs'' of Some v \<Rightarrow> v | None \<Rightarrow> PList [])),
                         c')))"
proof (intro conjI impI allI)
  assume "\<not> is_list_or_tuple article_ids"
  then show "map_of (metered_access_params c article_ids threshold product_key) ''article_id''
               = Some (PList [article_ids])"
    by (simp add: metered_access_params_article_id)
next
  assume "\<not> is_list_or_tuple article_ids"
  then show "get_metered_access E c article_ids threshold product_key
               = get_metered_access E c (PList [article_ids]) threshold product_key"
    by (simp add: get_metered_access_def metered_access_params_single)
next
  assume "s = PStr ''invalid_token''"
  with assms show "get_metered_access E c article_ids threshold product_key
                     = (Inl InvalidTokenException, c')"
    by (simp add: get_metered_access_def)
next
  assume "s \<noteq> PStr ''invalid_token''" and "s \<noteq> PStr ''ok''"
  with assms show "get_metered_access E c article_ids threshold product_key
                     = (Inl (Exception []), c')"
    by (simp add: get_metered_access_def)
next
  fix a
  assume "s = PStr ''ok''" and "map_of r ''articles'' = Some a"
  with assms show "get_metered_access E c article_ids threshold product_key
      = (Inr (a, (case map_of r ''exceeded'' of Some v \<Rightarrow> v | None \<Rightarrow> PBool False),
                 (case map_of r ''subs'' of Some v \<Rightarrow> v | None \<Rightarrow> PList [])), c')"
    by (simp add: get_metered_access_def)
qed

theorem get_metered_access_result_witness:
  "get_metered_access
     (stub_env (Body ''{}'')
        (PDict [(''status'', PStr ''ok''), (''articles'', PDict [(''a1'', PBool False)]),
                (''exceeded'', PBool True), (''subs'', PList [])]))
     client0 (PStr ''a1'') (PInt 3) PNone
     = (Inr (PDict [(''a1'', PBool False)], PBool True, PList []), client0)
   \<and> map_of (metered_access_params client0 (PStr ''a1'') (PInt 3) PNone) ''article_id''
     = Some (PList [PStr ''a1''])"
proof -
  let ?r = "[(''status'', PStr ''ok''), (''articles'', PDict [(''a1'', PBool False)]),
             (''exceeded'', PBool True), (''subs'', PList [])]"
  let ?E = "stub_env (Body ''{}'') (PDict ?r)"
  have a: "make_request ?E client0 (access_url client0)
             (metered_access_params client0 (PStr ''a1'') (PInt 3) PNone) ''GET''
             = (Inr ?r, client0)"
    using make_request_dict [OF stub_sign_client0 stub_read_body, of "''{}''" ?r] by simp
  have s: "map_of ?r ''status'' = Some (PStr ''ok'')" by simp
  from get_metered_access_result [OF a s] have
    "get_metered_access ?E client0 (PStr ''a1'') (PInt 3) PNone
       = (Inr (PDict [(''a1'', PBool False)], PBool True, PList []), client0)"
    by auto
  moreover from get_metered_access_result [OF a s] have
    "map_of (metered_access_params client0 (PStr ''a1'') (PInt 3) PNone) ''article_id''
       = Some (PList [PStr ''a1''])"
    by simp
  ultimately show ?thesis
    by (rule conjI)
qed

text \<open>
  C10: for an article id \<open>x\<close> that is neither a list nor a tuple, \<^verbatim>\<open>get_access(x)\<close> sends
  the request whose parameters carry the one-element list \<^verbatim>\<open>[x]\<close> under \<^verbatim>\<open>article_id\<close>
  and treats the response as \<^verbatim>\<open>get_access\<close> always does; so \<^verbatim>\<open>get_access(x)\<close> is
  \<^verbatim>\<open>get_access([x])\<close>, in its result and in the client it leaves.
\<close>

theorem get_access_single_id:
  assumes "\<not> is_list_or_tuple x"
  shows "get_access E c x product_key =
           (case make_request E c (api_root c @ ''/access'')
                   ([(''lptoken'', lptoken c), (''cp'', PStr (cp_key c)),
                     (''article_id'', PList [x])]
                    @ (if product_key \<noteq> PNone then [(''product'', product_key)] else []))
                   ''GET'' of
              (Inl e, c') \<Rightarrow> (Inl e, c')
            | (Inr r, c') \<Rightarrow>
                (case map_of r ''status'' of
                   None \<Rightarrow> (Inl (KeyError ''status''), c')
                 | Some s \<Rightarrow>
                     if s = PStr ''ok'' \<or> s = PStr ''invalid_token''
                        \<or> s = PStr ''connection_error''
                     then (Inr r, c') else (Inl (Exception [s]), c')))
         \<and> get_access E c x product_key = get_access E c (PList [x]) product_key
         \<and> map_of (access_params c x product_key) ''article_id'' = Some (PList [x])"
proof (intro conjI)
  from assms show "get_access E c x product_key =
           (case make_request E c (api_root c @ ''/access'')
                   ([(''lptoken'', lptoken c), (''cp'', PStr (cp_key c)),
                     (''article_id'', PList [x])]
                    @ (if product_key \<noteq> PNone then [(''product'', product_key)] else []))
                   ''GET'' of
              (Inl e, c') \<Rightarrow> (Inl e, c')
            | (Inr r, c') \<Rightarrow>
                (case map_of r ''status'' of
                   None \<Rightarrow> (Inl (KeyError ''status''), c')
                 | Some s \<Rightarrow>
                     if s = PStr ''ok'' \<or> s = PStr ''invalid_token''
                        \<or> s = PStr ''connection_error''
                     then (Inr r, c') else (Inl (Exception [s]), c')))"
    by (auto simp: get_access_def access_params_def access_url_def
          split: prod.split sum.split option.split)
next
  from assms show "get_access E c x product_key = get_access E c (PList [x]) product_key"
    by (simp add: get_access_def access_params_single)
next
  from assms show "map_of (access_params c x product_key) ''article_id'' = Some (PList [x])"
    by (simp add: access_params_article_id)
qed

theorem get_access_single_id_witness:
  "get_access
     (list_env (PDict [(''status'', PStr ''ok''),
                       (''articles'', PDict [(''abc123'', PBool True)])]))
     client0 (PStr ''abc123'') PNone
   = (Inr [(''status'', PStr ''ok''), (''articles'', PDict [(''abc123'', PBool True)])],
      client0)
   \<and> list_sign ''secret''
       [(''lptoken'', PNone), (''cp'', PStr ''cp1''), (''article_id'', PStr ''abc123'')]
       ''https://api.laterpay.net/access'' ''GET''
     = Inl (SigningError ''article_id is not a list'')"
proof -
  let ?r = "[(''status'', PStr ''ok''), (''articles'', PDict [(''abc123'', PBool True)])]"
  let ?ps = "[(''lptoken'', lptoken client0), (''cp'', PStr (cp_key client0)),
              (''article_id'', PList [PStr ''abc123''])]
             @ (if PNone \<noteq> PNone then [(''product'', PNone)] else [])"
  have h: "\<not> is_list_or_tuple (PStr ''abc123'')"
    by simp
  have s: "sign_and_encode (list_env (PDict ?r)) client0 ?ps (api_root client0 @ ''/access'')
             ''GET'' = Inr stub_signature"
    by (simp add: sign_and_encode_def list_env_def list_sign_def)
  have r: "read_response (list_env (PDict ?r))
             (build_request (api_root client0 @ ''/access'') stub_signature ''GET'')
             = Inr (PDict ?r)"
    by (simp add: read_response_def list_env_def stub_env_def)
  have m: "make_request (list_env (PDict ?r)) client0 (api_root client0 @ ''/access'') ?ps ''GET''
             = (Inr ?r, client0)"
    using make_request_dict [OF s r] by simp
  have a: "get_access (list_env (PDict ?r)) client0 (PStr ''abc123'') PNone = (Inr ?r, client0)"
    using get_access_single_id [OF h, of "list_env (PDict ?r)" client0 PNone] m by simp
  have b: "list_sign ''secret''
       [(''lptoken'', PNone), (''cp'', PStr ''cp1''), (''article_id'', PStr ''abc123'')]
       ''https://api.laterpay.net/access'' ''GET''
     = Inl (SigningError ''article_id is not a list'')"
    by (simp add: list_sign_def)
  from a b show ?thesis
    by (rule conjI)
qed

section \<open>Validation of an item definition\<close>

lemma re_match_pricing_iff:
  "re_match_pricing tok \<longleftrightarrow>
     (\<exists>a b c d rest. tok = a # b # c # d # rest \<and> is_AZ a \<and> is_AZ b \<and> is_AZ c \<and> is_digit d)"
proof (cases tok)
  case Nil
  then show ?thesis by (simp add: re_match_pricing_def numeral_3_eq_3)
next
  case (Cons a t1)
  note c1 = this
  show ?thesis
  proof (cases t1)
    case Nil
    with c1 show ?thesis by (simp add: re_match_pricing_def numeral_3_eq_3)
  next
    case (Cons b t2)
    note c2 = this
    show ?thesis
    proof (cases t2)
      case Nil
      with c1 c2 show ?thesis by (simp add: re_match_pricing_def numeral_3_eq_3)
    next
      case (Cons c t3)
      with c1 c2 show ?thesis
        by (cases t3) (auto simp: re_match_pricing_def numeral_3_eq_3)
    qed
  qed
qed

lemma check_pricing_None:
  "check_pricing pricing toks = None \<longleftrightarrow> (\<forall>tok\<in>set toks. re_match_pricing tok)"
  by (induction toks) auto

lemma check_pricing_Some:
  "check_pricing pricing toks = Some e \<Longrightarrow>
     e = InvalidItemDefinition (''Pricing is not valid: '' @ pricing)"
  by (induction toks) (auto split: if_splits)

lemma check_vat_None:
  "check_vat E vat vs = None \<longleftrightarrow>
     (\<forall>v\<in>set vs. 2 \<le> length v \<and> list_all is_AZ (take 2 v) \<and> float_parses E (drop 2 v))"
  by (induction vs) (auto simp: is_AZ_def [abs_def])

lemma check_vat_Some:
  "check_vat E vat vs = Some e \<Longrightarrow>
     \<exists>v\<in>set vs.
        (length v < 2 \<and> e = InvalidItemDefinition (''Invalid length for vat: '' @ v))
      \<or> (2 \<le> length v \<and> \<not> list_all is_AZ (take 2 v)
           \<and> e = InvalidItemDefinition (''Invalid country for vat: '' @ vat))
      \<or> (2 \<le> length v \<and> list_all is_AZ (take 2 v) \<and> \<not> float_parses E (drop 2 v)
           \<and> e = InvalidItemDefinition (''Invalid number part for vat: '' @ vat))"
proof (induction vs)
  case Nil
  then show ?case by simp
next
  case (Cons v vs)
  then show ?case
    by (auto simp: is_AZ_def [abs_def] split: if_splits)
qed

lemma check_vat_not_pricing:
  "check_vat E vat vs = Some e \<Longrightarrow>
     e \<noteq> InvalidItemDefinition (''Pricing is not valid: '' @ pricing)"
  by (induction vs) (auto split: if_splits)

text \<open>
  C6, amended: \<^verbatim>\<open>ItemDefinition\<close> splits the pricing string on commas and raises
  \<^verbatim>\<open>InvalidItemDefinition\<close> with the message \<^verbatim>\<open>Pricing is not valid: \<close> and the pricing
  string if and only if some token does not begin with three uppercase letters followed
  by a digit. The match is at the start of the token only: whatever follows the first
  digit is accepted, a decimal point included.
\<close>

theorem ItemDefinition_pricing:
  "fst (ItemDefinition_init E h item_id pricing vat u title p cp)
     = Inl (InvalidItemDefinition (''Pricing is not valid: '' @ pricing))
   \<longleftrightarrow> (\<exists>tok\<in>set (split pricing CHR '','').
          \<not> (\<exists>a b c d rest. tok = a # b # c # d # rest
                \<and> is_AZ a \<and> is_AZ b \<and> is_AZ c \<and> is_digit d))"
proof (cases "check_pricing pricing (split pricing CHR '','')")
  case None
  then have ok: "\<forall>tok\<in>set (split pricing CHR '',''). re_match_pricing tok"
    by (simp add: check_pricing_None)
  have "fst (ItemDefinition_init E h item_id pricing vat u title p cp)
          \<noteq> Inl (InvalidItemDefinition (''Pricing is not valid: '' @ pricing))"
    using None
    by (auto simp: ItemDefinition_init_def split: option.splits dest: check_vat_not_pricing)
  with ok show ?thesis
    by (simp add: re_match_pricing_iff)
next
  case (Some e)
  then have e: "e = InvalidItemDefinition (''Pricing is not valid: '' @ pricing)"
    by (rule check_pricing_Some)
  have "\<not> (\<forall>tok\<in>set (split pricing CHR '',''). re_match_pricing tok)"
    using Some check_pricing_None [of pricing "split pricing CHR '',''"] by simp
  with Some e show ?thesis
    by (simp add: ItemDefinition_init_def re_match_pricing_iff)
qed


lemmas run_init =
  ItemDefinition_init_def split_def re_match_pricing_def numeral_3_eq_3 is_AZ_def is_digit_def
  env0_def stub_env_def float_syntax_def strip_def drop_sign_def float_exponent_def
  is_space_def lower_def

text \<open>
  C6, as the specification states it, has the pricing string \<^verbatim>\<open>EUR2.50\<close> rejected, no
  decimal point being permitted. The constructor accepts it: \<^verbatim>\<open>re.match\<close> is satisfied
  by the prefix \<^verbatim>\<open>EUR2\<close>.
\<close>

theorem ItemDefinition_pricing_counterexample:
  "fst (ItemDefinition_init env0 [] (PStr ''a1'') ''EUR2.50'' ''DE19''
          (PStr ''http://example.com/a1'') (PStr ''Title'') PNone PNone)
     = Inr \<lparr>data = 0\<rparr>"
  by (simp add: run_init)

theorem ItemDefinition_pricing_witness:
  "fst (ItemDefinition_init env0 [] (PStr ''a1'') ''eur2'' ''DE19''
          (PStr ''http://example.com/a1'') (PStr ''Title'') PNone PNone)
     = Inl (InvalidItemDefinition ''Pricing is not valid: eur2'')
   \<and> fst (ItemDefinition_init env0 [] (PStr ''a1'') ''EUR2,USD3'' ''DE19''
          (PStr ''http://example.com/a1'') (PStr ''Title'') PNone PNone)
     = Inr \<lparr>data = 0\<rparr>
   \<and> fst (ItemDefinition_init env0 [] (PStr ''a1'') ''EUR2'' ''DE19''
          (PStr ''http://example.com/a1'') (PStr ''Title'') PNone PNone)
     = Inr \<lparr>data = 0\<rparr>"
proof -
  have bad: "\<exists>tok\<in>set (split ''eur2'' CHR '','').
          \<not> (\<exists>a b c d rest. tok = a # b # c # d # rest
                \<and> is_AZ a \<and> is_AZ b \<and> is_AZ c \<and> is_digit d)"
    by (simp add: split_def is_AZ_def)
  have "fst (ItemDefinition_init env0 [] (PStr ''a1'') ''eur2'' ''DE19''
          (PStr ''http://example.com/a1'') (PStr ''Title'') PNone PNone)
     = Inl (InvalidItemDefinition (''Pricing is not valid: '' @ ''eur2''))"
    using bad by (simp only: ItemDefinition_pricing)
  then show ?thesis
    by (simp add: run_init)
qed

text \<open>
  C8, amended: for a pricing string and a timestamp that pass their checks,
  \<^verbatim>\<open>ItemDefinition\<close> splits the vat string on commas and raises if and only if some token
  is shorter than two characters, or its first two characters are not both uppercase
  letters, or its remainder does not parse as a number. The exception is
  \<^verbatim>\<open>InvalidItemDefinition\<close> and its message names the check that failed on a token:
  the length, with the token; the country, with the vat string; or the number part,
  with the vat string.
\<close>

theorem ItemDefinition_vat:
  assumes "\<forall>tok\<in>set (split pricing CHR '',''). re_match_pricing tok"
      and "p = PNone \<or> is_int p"
  shows "((\<exists>e. fst (ItemDefinition_init E h item_id pricing vat u title p cp) = Inl e)
           \<longleftrightarrow> (\<exists>v\<in>set (split vat CHR '','').
                  length v < 2 \<or> \<not> list_all is_AZ (take 2 v) \<or> \<not> float_parses E (drop 2 v)))
         \<and> (\<forall>e. fst (ItemDefinition_init E h item_id pricing vat u title p cp) = Inl e
              \<longrightarrow> (\<exists>v\<in>set (split vat CHR '','').
                    (length v < 2
                       \<and> e = InvalidItemDefinition (''Invalid length for vat: '' @ v))
                  \<or> (2 \<le> length v \<and> \<not> list_all is_AZ (take 2 v)
                       \<and> e = InvalidItemDefinition (''Invalid country for vat: '' @ vat))
                  \<or> (2 \<le> length v \<and> list_all is_AZ (take 2 v)
                       \<and> \<not> float_parses E (drop 2 v)
                       \<and> e = InvalidItemDefinition (''Invalid number part for vat: '' @ vat))))"
proof -
  from assms(1) have cp: "check_pricing pricing (split pricing CHR '','') = None"
    by (simp add: check_pricing_None)
  show ?thesis
  proof (cases "check_vat E vat (split vat CHR '','')")
    case None
    with cp assms(2) have "\<exists>x. fst (ItemDefinition_init E h item_id pricing vat u title p cp) = Inr x"
      by (auto simp: ItemDefinition_init_def)
    moreover from None have
      "\<forall>v\<in>set (split vat CHR '','').
          2 \<le> length v \<and> list_all is_AZ (take 2 v) \<and> float_parses E (drop 2 v)"
      by (simp add: check_vat_None)
    ultimately show ?thesis
      by (auto simp: not_less)
  next
    case (Some e)
    with cp have r: "fst (ItemDefinition_init E h item_id pricing vat u title p cp) = Inl e"
      by (simp add: ItemDefinition_init_def)
    from check_vat_Some [OF Some] have w:
      "\<exists>v\<in>set (split vat CHR '','').
        (length v < 2 \<and> e = InvalidItemDefinition (''Invalid length for vat: '' @ v))
      \<or> (2 \<le> length v \<and> \<not> list_all is_AZ (take 2 v)
           \<and> e = InvalidItemDefinition (''Invalid country for vat: '' @ vat))
      \<or> (2 \<le> length v \<and> list_all is_AZ (take 2 v) \<and> \<not> float_parses E (drop 2 v)
           \<and> e = InvalidItemDefinition (''Invalid number part for vat: '' @ vat))" .
    then have "\<exists>v\<in>set (split vat CHR '','').
                  length v < 2 \<or> \<not> list_all is_AZ (take 2 v) \<or> \<not> float_parses E (drop 2 v)"
      by blast
    with r w show ?thesis
      by simp
  qed
qed

text \<open>
  C8, as the specification states it, has the message say which of two parts failed, the
  country or the number. For the vat string \<^verbatim>\<open>D\<close> the message is neither: the
  constructor reports the length of the token.
\<close>

theorem ItemDefinition_vat_counterexample:
  "fst (ItemDefinition_init env0 [] (PStr ''a1'') ''EUR2'' ''D''
          (PStr ''http://example.com/a1'') (PStr ''Title'') PNone PNone)
     = Inl (InvalidItemDefinition ''Invalid length for vat: D'')
   \<and> ''Invalid length for vat: D'' \<noteq> ''Invalid country for vat: D''
   \<and> ''Invalid length for vat: D'' \<noteq> ''Invalid number part for vat: D''"
  by (simp add: run_init)

theorem ItemDefinition_vat_witness:
  "fst (ItemDefinition_init env0 [] (PStr ''a1'') ''EUR2'' ''DE19''
          (PStr ''http://example.com/a1'') (PStr ''Title'') PNone PNone)
     = Inr \<lparr>data = 0\<rparr>
   \<and> fst (ItemDefinition_init env0 [] (PStr ''a1'') ''EUR2'' ''D19''
          (PStr ''http://example.com/a1'') (PStr ''Title'') PNone PNone)
     = Inl (InvalidItemDefinition ''Invalid country for vat: D19'')
   \<and> fst (ItemDefinition_init env0 [] (PStr ''a1'') ''EUR2'' ''DEx''
          (PStr ''http://example.com/a1'') (PStr ''Title'') PNone PNone)
     = Inl (InvalidItemDefinition ''Invalid number part for vat: DEx'')"
proof -
  have pr: "\<forall>tok\<in>set (split ''EUR2'' CHR '',''). re_match_pricing tok"
    by (simp add: split_def re_match_pricing_def numeral_3_eq_3 is_AZ_def is_digit_def)
  have ts: "PNone = PNone \<or> is_int PNone"
    by simp
  have bad: "\<exists>v\<in>set (split ''DEx'' CHR '','').
               length v < 2 \<or> \<not> list_all is_AZ (take 2 v) \<or> \<not> float_parses env0 (drop 2 v)"
    by (simp add: run_init)
  from ItemDefinition_vat [OF pr ts, of env0 "[]" "PStr ''a1''" "''DEx''"
         "PStr ''http://example.com/a1''" "PStr ''Title''" PNone] bad
  have "\<exists>e. fst (ItemDefinition_init env0 [] (PStr ''a1'') ''EUR2'' ''DEx''
          (PStr ''http://example.com/a1'') (PStr ''Title'') PNone PNone) = Inl e"
    by blast
  then show ?thesis
    by (simp add: run_init)
qed

section \<open>Buy and add URLs\<close>

text \<open>
  \<^verbatim>\<open>_get_web_url\<close> without the heap: the dictionary it signs is the item's dictionary with
  the flags of the call written over it, and the heap it leaves is the old heap with that
  dictionary as one more cell.
\<close>

lemma setitem_last: "setitem (h @ [x]) (length h) k v = h @ [AList.update k v x]"
  by (simp add: setitem_def)

lemma tref_cases [case_names none empty short long]:
  fixes tr :: "string option"
  obtains "tr = None" | "tr = Some []"
    | t where "tr = Some t" "t \<noteq> []" "length t < 6"
    | t where "tr = Some t" "t \<noteq> []" "\<not> length t < 6"
  by (cases tr) auto

lemma get_web_url_eq:
  "get_web_url E h c item pt pk dl js sk tr cn ex =
     (let d0 = h ! data item;
          d1 = (if js then AList.update ''jsevents'' (PInt 1) d0 else d0);
          d2 = (if cn then AList.update ''consumable'' (PInt 1) d1 else d1);
          d3 = (if ex \<noteq> PNone then AList.update ''expires_at'' ex d2 else d2);
          d4 = (case tr of
                  None \<Rightarrow> d3
                | Some t \<Rightarrow> if t \<noteq> [] then AList.update ''tref'' (PStr t) d3 else d3);
          d5 = (if sk then AList.update ''skip_add_to_invoice'' (PInt 1) d4 else d4);
          prefix = (if dl then web_root c @ ''/dialog'' else web_root c);
          base = (case pk of
                    Some k \<Rightarrow> prefix @ ''/'' @ k @ ''/'' @ pt
                  | None \<Rightarrow> prefix @ ''/'' @ pt)
      in if (case tr of None \<Rightarrow> False | Some t \<Rightarrow> t \<noteq> [] \<and> length t < 6)
         then (Inl (APIException ''Transaction reference is not unique enough''), h @ [d3])
         else (case sign_and_encode E c d5 base ''GET'' of
                 Inl e \<Rightarrow> Inl e
               | Inr q \<Rightarrow> Inr (get_dialog_api_url E c (base @ ''?'' @ q)),
               h @ [d5]))"
proof -
  have lift: "\<And>b x y. (if b then h @ [x] else h @ [y]) = h @ [if b then x else y]"
    by simp
  show ?thesis
    unfolding get_web_url_def copy_copy_def
    by (cases tr rule: tref_cases)
       (simp_all add: Let_def lift setitem_last
          split del: if_split split: sum.split cong: if_cong)
qed

lemma get_web_url_heap:
  "\<exists>d. snd (get_web_url E h c item pt pk dl js sk tr cn ex) = h @ [d]"
  by (cases tr rule: tref_cases)
     (simp_all add: get_web_url_eq Let_def split del: if_split cong: if_cong)

lemma get_web_url_old_cells:
  "take (length h) (snd (get_web_url E h c item pt pk dl js sk tr cn ex)) = h"
  using get_web_url_heap [of E h c item pt pk dl js sk tr cn ex] by auto

lemma get_web_url_old_cell:
  "a < length h \<Longrightarrow> snd (get_web_url E h c item pt pk dl js sk tr cn ex) ! a = h ! a"
  using get_web_url_heap [of E h c item pt pk dl js sk tr cn ex] by (auto simp: nth_append)

lemma get_web_url_reads_data:
  "h ! data item = h' ! data item \<Longrightarrow>
     fst (get_web_url E h c item pt pk dl js sk tr cn ex)
       = fst (get_web_url E h' c item pt pk dl js sk tr cn ex)"
  by (cases tr rule: tref_cases)
     (simp_all add: get_web_url_eq Let_def split del: if_split cong: if_cong)

lemma get_web_url_flags:
  "(js \<longrightarrow> map_of (snd (get_web_url E h c item pt pk dl js sk tr cn ex) ! length h) ''jsevents''
            = Some (PInt 1))
   \<and> (cn \<longrightarrow> map_of (snd (get_web_url E h c item pt pk dl js sk tr cn ex) ! length h)
              ''consumable'' = Some (PInt 1))
   \<and> (ex \<noteq> PNone
        \<longrightarrow> map_of (snd (get_web_url E h c item pt pk dl js sk tr cn ex) ! length h)
              ''expires_at'' = Some ex)"
  by (cases tr rule: tref_cases)
     (simp_all add: get_web_url_eq Let_def update_conv')

lemma get_web_url_short:
  "t \<noteq> [] \<Longrightarrow> length t < 6 \<Longrightarrow>
     fst (get_web_url E h c item pt pk dl js sk (Some t) cn ex)
       = Inl (APIException ''Transaction reference is not unique enough'')"
  by (simp add: get_web_url_eq Let_def split del: if_split cong: if_cong)

lemma get_web_url_signed:
  "\<not> (case tr of None \<Rightarrow> False | Some t \<Rightarrow> t \<noteq> [] \<and> length t < 6) \<Longrightarrow>
   spec_signed_dialog_url E c
     (case pk of
        Some k \<Rightarrow> (if dl then web_root c @ ''/dialog'' else web_root c) @ ''/'' @ k @ ''/'' @ pt
      | None \<Rightarrow> (if dl then web_root c @ ''/dialog'' else web_root c) @ ''/'' @ pt)
     (snd (get_web_url E h c item pt pk dl js sk tr cn ex) ! length h)
     (fst (get_web_url E h c item pt pk dl js sk tr cn ex))"
  by (cases tr rule: tref_cases)
     (simp_all add: get_web_url_eq Let_def spec_signed_dialog_url_def sign_and_encode_def
        get_dialog_api_url_def split del: if_split cong: if_cong sum.case_cong)

lemma get_web_url_long:
  assumes "6 \<le> length t"
  shows "map_of (snd (get_web_url E h c item pt pk dl js sk (Some t) cn ex) ! length h) ''tref''
           = Some (PStr t)"
    and "\<exists>base. spec_signed_dialog_url E c base
            (snd (get_web_url E h c item pt pk dl js sk (Some t) cn ex) ! length h)
            (fst (get_web_url E h c item pt pk dl js sk (Some t) cn ex))"
proof -
  from assms have t: "t \<noteq> []" "\<not> length t < 6"
    by auto
  from t show "map_of (snd (get_web_url E h c item pt pk dl js sk (Some t) cn ex) ! length h)
                 ''tref'' = Some (PStr t)"
    by (simp add: get_web_url_eq Let_def update_conv')
  from t have "\<not> (case Some t of None \<Rightarrow> False | Some t \<Rightarrow> t \<noteq> [] \<and> length t < 6)"
    by simp
  from get_web_url_signed [OF this]
  show "\<exists>base. spec_signed_dialog_url E c base
            (snd (get_web_url E h c item pt pk dl js sk (Some t) cn ex) ! length h)
            (fst (get_web_url E h c item pt pk dl js sk (Some t) cn ex))"
    by (rule exI)
qed

lemma get_web_url_empty:
  "get_web_url E h c item pt pk dl js sk (Some []) cn ex
     = get_web_url E h c item pt pk dl js sk None cn ex"
  by (simp add: get_web_url_eq Let_def split del: if_split cong: if_cong)


lemma get_web_url_no_tref:
  "tr = None \<or> tr = Some [] \<Longrightarrow>
     map_of (snd (get_web_url E h c item pt pk dl js sk tr cn ex) ! length h) ''tref''
       = map_of (h ! data item) ''tref''"
  by (auto simp: get_web_url_eq Let_def update_conv')

lemma get_web_url_no_tref_signed:
  "tr = None \<or> tr = Some [] \<Longrightarrow>
   spec_signed_dialog_url E c
     (case pk of
        Some k \<Rightarrow> (if dl then web_root c @ ''/dialog'' else web_root c) @ ''/'' @ k @ ''/'' @ pt
      | None \<Rightarrow> (if dl then web_root c @ ''/dialog'' else web_root c) @ ''/'' @ pt)
     (snd (get_web_url E h c item pt pk dl js sk tr cn ex) ! length h)
     (fst (get_web_url E h c item pt pk dl js sk tr cn ex))"
  by (rule get_web_url_signed) auto

lemma get_web_url_long_signed:
  "6 \<le> length t \<Longrightarrow>
   spec_signed_dialog_url E c
     (case pk of
        Some k \<Rightarrow> (if dl then web_root c @ ''/dialog'' else web_root c) @ ''/'' @ k @ ''/'' @ pt
      | None \<Rightarrow> (if dl then web_root c @ ''/dialog'' else web_root c) @ ''/'' @ pt)
     (snd (get_web_url E h c item pt pk dl js sk (Some t) cn ex) ! length h)
     (fst (get_web_url E h c item pt pk dl js sk (Some t) cn ex))"
  by (rule get_web_url_signed) auto

text \<open>
  C7, as the specification states it: a transaction reference shorter than six characters,
  the empty one included, is rejected with an \<^verbatim>\<open>APIException\<close>. The empty reference is
  not rejected: \<^verbatim>\<open>if transaction_reference:\<close> is false for it, the length is never
  looked at, and the URL is built.
\<close>

theorem get_web_url_transaction_reference_counterexample:
  "fst (get_buy_url env0 heap0 client0 item0 None True False False (Some []) False PNone)
     = Inr (''https://web.laterpay.net/dialog-api?url=''
            @ ''https%3A%2F%2Fweb.laterpay.net%2Fdialog%2Fbuy%3Fts%3D1400000000%26hmac%3D5f2a'')"
  by code_simp

text \<open>
  C7, amended: \<^verbatim>\<open>get_buy_url\<close> and \<^verbatim>\<open>get_add_url\<close> reject a transaction reference of one
  to five characters with \<^verbatim>\<open>APIException\<close>, whatever the signer would have done with the
  parameters (the result is the same in every environment, also one whose signer fails).
  A reference of six characters or more is stored under \<^verbatim>\<open>tref\<close> in the parameters that
  are signed. For the empty reference, as for none, the builder raises nothing of its
  own and adds no \<^verbatim>\<open>tref\<close>: the parameters it signs have under \<^verbatim>\<open>tref\<close> what the item's
  map has there, and the result is the signer's failure or the signed URL in the
  dialog-api URL; the two calls are the same call.
\<close>

theorem get_web_url_transaction_reference:
  "(tref \<noteq> [] \<longrightarrow> length tref < 6 \<longrightarrow>
       fst (get_buy_url E h c item pk dl js sk (Some tref) cn ex)
         = Inl (APIException ''Transaction reference is not unique enough'')
     \<and> fst (get_add_url E h c item pk dl js sk (Some tref) cn ex)
         = Inl (APIException ''Transaction reference is not unique enough''))
   \<and> (6 \<le> length tref \<longrightarrow>
       map_of (snd (get_buy_url E h c item pk dl js sk (Some tref) cn ex) ! length h) ''tref''
         = Some (PStr tref)
     \<and> map_of (snd (get_add_url E h c item pk dl js sk (Some tref) cn ex) ! length h) ''tref''
         = Some (PStr tref)
     \<and> spec_signed_dialog_url E c
           (case pk of
              Some k \<Rightarrow> (if dl then web_root c @ ''/dialog'' else web_root c)
                         @ ''/'' @ k @ ''/'' @ ''buy''
            | None \<Rightarrow> (if dl then web_root c @ ''/dialog'' else web_root c) @ ''/'' @ ''buy'')
           (snd (get_buy_url E h c item pk dl js sk (Some tref) cn ex) ! length h)
           (fst (get_buy_url E h c item pk dl js sk (Some tref) cn ex))
     \<and> spec_signed_dialog_url E c
           (case pk of
              Some k \<Rightarrow> (if dl then web_root c @ ''/dialog'' else web_root c)
                         @ ''/'' @ k @ ''/'' @ ''add''
            | None \<Rightarrow> (if dl then web_root c @ ''/dialog'' else web_root c) @ ''/'' @ ''add'')
           (snd (get_add_url E h c item pk dl js sk (Some tref) cn ex) ! length h)
           (fst (get_add_url E h c item pk dl js sk (Some tref) cn ex)))
   \<and> (tr = None \<or> tr = Some [] \<longrightarrow>
       map_of (snd (get_buy_url E h c item pk dl js sk tr cn ex) ! length h) ''tref''
         = map_of (h ! data item) ''tref''
     \<and> map_of (snd (get_add_url E h c item pk dl js sk tr cn ex) ! length h) ''tref''
         = map_of (h ! data item) ''tref''
     \<and> spec_signed_dialog_url E c
           (case pk of
              Some k \<Rightarrow> (if dl then web_root c @ ''/dialog'' else web_root c)
                         @ ''/'' @ k @ ''/'' @ ''buy''
            | None \<Rightarrow> (if dl then web_root c @ ''/dialog'' else web_root c) @ ''/'' @ ''buy'')
           (snd (get_buy_url E h c item pk dl js sk tr cn ex) ! length h)
           (fst (get_buy_url E h c item pk dl js sk tr cn ex))
     \<and> spec_signed_dialog_url E c
           (case pk of
              Some k \<Rightarrow> (if dl then web_root c @ ''/dialog'' else web_root c)
                         @ ''/'' @ k @ ''/'' @ ''add''
            | None \<Rightarrow> (if dl then web_root c @ ''/dialog'' else web_root c) @ ''/'' @ ''add'')
           (snd (get_add_url E h c item pk dl js sk tr cn ex) ! length h)
           (fst (get_add_url E h c item pk dl js sk tr cn ex)))
   \<and> get_buy_url E h c item pk dl js sk (Some []) cn ex
       = get_buy_url E h c item pk dl js sk None cn ex
   \<and> get_add_url E h c item pk dl js sk (Some []) cn ex
       = get_add_url E h c item pk dl js sk None cn ex"
  unfolding get_buy_url_def get_add_url_def
  by (intro conjI impI get_web_url_short get_web_url_long(1) get_web_url_long_signed
        get_web_url_no_tref get_web_url_no_tref_signed get_web_url_empty)

theorem get_web_url_transaction_reference_witness:
  "fst (get_buy_url env0 heap0 client0 item0 None True False False (Some ''abc'') False PNone)
     = Inl (APIException ''Transaction reference is not unique enough'')
   \<and> fst (get_buy_url env0 heap0 client_no_secret item0 None True False False (Some ''abc'')
            False PNone)
     = Inl (APIException ''Transaction reference is not unique enough'')
   \<and> fst (get_buy_url env0 heap0 client_no_secret item0 None True False False
            (Some ''abcdef'') False PNone)
     = Inl (SigningError ''no secret'')
   \<and> map_of (snd (get_buy_url env0 heap0 client0 item0 None True False False
                    (Some ''abcdef'') False PNone) ! length heap0) ''tref''
     = Some (PStr ''abcdef'')
   \<and> map_of (snd (get_buy_url env0 heap0 client0 item0 None True False False
                    (Some []) False PNone) ! length heap0) ''tref''
     = None
   \<and> fst (get_buy_url env0 heap0 client0 item0 None True False False (Some []) False PNone)
     = Inr (''https://web.laterpay.net/dialog-api?url=''
            @ compat_quote_plus env0 (''https://web.laterpay.net/dialog/buy?'' @ stub_signature))"
proof -
  note short = get_web_url_transaction_reference [where tref = "''abc''" and E = env0
      and h = heap0 and item = item0 and pk = None and dl = True and js = False
      and sk = False and cn = False and ex = PNone and tr = None]
  note long = get_web_url_transaction_reference [where tref = "''abcdef''" and E = env0
      and h = heap0 and item = item0 and pk = None and dl = True and js = False
      and sk = False and cn = False and ex = PNone and tr = None]
  note empty = get_web_url_transaction_reference [where tref = "''abc''" and E = env0
      and h = heap0 and c = client0 and item = item0 and pk = None and dl = True
      and js = False and sk = False and cn = False and ex = PNone and tr = "Some []"]
  have no_ref: "Some [] = (None :: string option) \<or> Some [] = Some ([] :: string)"
    by simp
  note empty3 = empty [THEN conjunct2, THEN conjunct2, THEN conjunct1, THEN mp, OF no_ref]
  have a: "fst (get_buy_url env0 heap0 client0 item0 None True False False (Some ''abc'')
                  False PNone)
             = Inl (APIException ''Transaction reference is not unique enough'')"
    using short [where c = client0] by simp
  have b: "fst (get_buy_url env0 heap0 client_no_secret item0 None True False False
                  (Some ''abc'') False PNone)
             = Inl (APIException ''Transaction reference is not unique enough'')"
    using short [where c = client_no_secret] by simp
  have nosig: "\<And>d u m. signing_sign_and_encode env0 (shared_secret client_no_secret) d u m
                   = Inl (SigningError ''no secret'')"
    by (simp add: env0_def stub_env_def stub_sign_def client_no_secret_def
          LaterPayClient_init_def)
  have c: "fst (get_buy_url env0 heap0 client_no_secret item0 None True False False
                  (Some ''abcdef'') False PNone)
             = Inl (SigningError ''no secret'')"
    using long [where c = client_no_secret] by (simp add: spec_signed_dialog_url_def nosig)
  have d: "map_of (snd (get_buy_url env0 heap0 client0 item0 None True False False
                    (Some ''abcdef'') False PNone) ! length heap0) ''tref''
             = Some (PStr ''abcdef'')"
    using long [where c = client0] by simp
  have item: "map_of (heap0 ! data item0) ''tref'' = None"
    by code_simp
  have e: "map_of (snd (get_buy_url env0 heap0 client0 item0 None True False False
                    (Some []) False PNone) ! length heap0) ''tref'' = None"
    using empty3 [THEN conjunct1] item by simp
  have sg: "\<And>d u m. signing_sign_and_encode env0 (shared_secret client0) d u m
                 = Inr stub_signature"
    by (simp add: env0_def stub_env_def stub_sign_def client0_def LaterPayClient_init_def)
  have root: "web_root client0 = ''https://web.laterpay.net''"
    by (simp add: client0_def LaterPayClient_init_def)
  have f: "fst (get_buy_url env0 heap0 client0 item0 None True False False (Some [])
                  False PNone)
     = Inr (''https://web.laterpay.net/dialog-api?url=''
            @ compat_quote_plus env0 (''https://web.laterpay.net/dialog/buy?'' @ stub_signature))"
    using empty3 [THEN conjunct2, THEN conjunct2, THEN conjunct1]
    by (simp add: spec_signed_dialog_url_def sg root)
  from a b c d e f show ?thesis
    by (intro conjI)
qed

text \<open>
  C9: \<^verbatim>\<open>get_buy_url\<close> and \<^verbatim>\<open>get_add_url\<close> leave the dictionary of the item definition as
  it was, and every other object that existed before the call: the flags of the call are
  written into the copy, which is the one new cell of the heap. A second build with the
  same item definition therefore returns what it would have returned on the heap before
  the first build.
\<close>

theorem get_web_url_leaves_item_definition:
  assumes "data item < length h"
  shows "snd (get_buy_url E h c item pk dl js sk tr cn ex) ! data item = h ! data item
       \<and> snd (get_add_url E h c item pk dl js sk tr cn ex) ! data item = h ! data item
       \<and> take (length h) (snd (get_buy_url E h c item pk dl js sk tr cn ex)) = h
       \<and> take (length h) (snd (get_add_url E h c item pk dl js sk tr cn ex)) = h
       \<and> fst (get_buy_url E (snd (get_buy_url E h c item pk dl js sk tr cn ex)) c item
                 pk2 dl2 js2 sk2 tr2 cn2 ex2)
           = fst (get_buy_url E h c item pk2 dl2 js2 sk2 tr2 cn2 ex2)
       \<and> fst (get_add_url E (snd (get_add_url E h c item pk dl js sk tr cn ex)) c item
                 pk2 dl2 js2 sk2 tr2 cn2 ex2)
           = fst (get_add_url E h c item pk2 dl2 js2 sk2 tr2 cn2 ex2)
       \<and> (js \<longrightarrow> map_of (snd (get_buy_url E h c item pk dl js sk tr cn ex) ! length h)
                   ''jsevents'' = Some (PInt 1))
       \<and> (cn \<longrightarrow> map_of (snd (get_buy_url E h c item pk dl js sk tr cn ex) ! length h)
                   ''consumable'' = Some (PInt 1))
       \<and> (ex \<noteq> PNone \<longrightarrow> map_of (snd (get_buy_url E h c item pk dl js sk tr cn ex) ! length h)
                   ''expires_at'' = Some ex)"
proof -
  have cell: "\<And>pt. snd (get_web_url E h c item pt pk dl js sk tr cn ex) ! data item
                  = h ! data item"
    using assms by (rule get_web_url_old_cell)
  have again: "\<And>pt. fst (get_web_url E (snd (get_web_url E h c item pt pk dl js sk tr cn ex))
                            c item pt pk2 dl2 js2 sk2 tr2 cn2 ex2)
                   = fst (get_web_url E h c item pt pk2 dl2 js2 sk2 tr2 cn2 ex2)"
    by (rule get_web_url_reads_data) (rule cell)
  show ?thesis
    unfolding get_buy_url_def get_add_url_def
    using get_web_url_flags [of js E h c item "''buy''" pk dl sk tr cn ex]
    by (simp add: cell again get_web_url_old_cells)
qed

theorem get_web_url_leaves_item_definition_witness:
  "snd (get_buy_url env0 heap0 client0 item0 None True True True (Some ''abcdef'') True
          (PInt 1500000000)) ! data item0 = heap0 ! data item0
   \<and> map_of (heap0 ! data item0) ''jsevents'' = None
   \<and> map_of (snd (get_buy_url env0 heap0 client0 item0 None True True True (Some ''abcdef'')
                    True (PInt 1500000000)) ! length heap0) ''jsevents'' = Some (PInt 1)"
proof -
  have v: "data item0 < length heap0"
    by code_simp
  have a: "snd (get_buy_url env0 heap0 client0 item0 None True True True (Some ''abcdef'') True
          (PInt 1500000000)) ! data item0 = heap0 ! data item0"
    using get_web_url_leaves_item_definition [OF v] by blast
  have b: "map_of (heap0 ! data item0) ''jsevents'' = None"
    by code_simp
  have c: "map_of (snd (get_buy_url env0 heap0 client0 item0 None True True True
                    (Some ''abcdef'') True (PInt 1500000000)) ! length heap0) ''jsevents''
             = Some (PInt 1)"
    by code_simp
  from a b c show ?thesis
    by blast
qed

section \<open>Which URL builders sign\<close>

lemma gettoken_signed:
  "spec_signed_url E c (api_root c @ ''/gettoken'')
     [(''redir'', return_to), (''cp'', PStr (cp_key c))] (get_gettoken_redirect E c return_to)"
  by (simp add: spec_signed_url_def get_gettoken_redirect_def gettoken_url_def
        sign_and_encode_def Let_def)

lemma identify_signed:
  "spec_signed_url E c (api_root c @ ''/identify'')
     ([(''cp'', PStr (cp_key c))]
      @ (if cb \<noteq> PNone then [(''callback_url'', cb)] else []))
     (get_identify_url E c cb)"
  by (simp add: spec_signed_url_def get_identify_url_def identify_url_def
        sign_and_encode_def Let_def)

lemma controls_balance_signed:
  "spec_signed_url E c (web_root c @ ''/controls/balance'')
     ([(''cp'', PStr (cp_key c))]
      @ (if forcelang \<noteq> PNone then [(''forcelang'', forcelang)] else [])
      @ [(''xdmprefix'', PStr (xdmprefix E))])
     (get_controls_balance_url E c forcelang)"
  by (simp add: spec_signed_url_def get_controls_balance_url_def
        sign_and_encode_def Let_def)

lemma controls_links_signed:
  "spec_signed_url E c (web_root c @ ''/controls/links'')
     ([(''next'', next_url), (''cp'', PStr (cp_key c))]
      @ (if forcelang \<noteq> PNone then [(''forcelang'', forcelang)] else [])
      @ (if css_url \<noteq> PNone then [(''css'', css_url)] else [])
      @ (if use_jsevents then [(''jsevents'', PStr ''1'')] else [])
      @ (if show_long_greeting \<or> show_greeting \<or> show_login \<or> show_long_signup \<or> show_signup
         then [(''show'', PStr ((if show_long_greeting then ''gg''
                                 else if show_greeting then ''g'' else [])
                                @ (if show_login then ''l'' else [])
                                @ (if show_long_signup then ''ss''
                                   else if show_signup then ''s'' else [])))]
         else [])
      @ [(''xdmprefix'', PStr (xdmprefix E))])
     (get_controls_links_url E c next_url css_url forcelang show_greeting
        show_long_greeting show_login show_signup show_long_signup use_jsevents)"
  by (cases "forcelang = PNone"; cases "css_url = PNone"; cases use_jsevents;
      cases show_long_greeting; cases show_greeting; cases show_login;
      cases show_long_signup; cases show_signup;
      simp add: spec_signed_url_def get_controls_links_url_def sign_and_encode_def
        Let_def get_show_def)

lemma buy_add_signed:
  assumes "\<forall>t. tr = Some t \<longrightarrow> t = [] \<or> 6 \<le> length t"
  shows "spec_signed_dialog_url E c
     (case pk of
        Some k \<Rightarrow> (if dl then web_root c @ ''/dialog'' else web_root c) @ ''/'' @ k @ ''/'' @ pt
      | None \<Rightarrow> (if dl then web_root c @ ''/dialog'' else web_root c) @ ''/'' @ pt)
     (snd (get_web_url E h c item pt pk dl js sk tr cn ex) ! length h)
     (fst (get_web_url E h c item pt pk dl js sk tr cn ex))"
proof (rule get_web_url_signed)
  from assms show "\<not> (case tr of None \<Rightarrow> False | Some t \<Rightarrow> t \<noteq> [] \<and> length t < 6)"
    by (cases tr) (auto simp: not_less)
qed

lemma buy_add_cell:
  assumes "\<forall>t. tr = Some t \<longrightarrow> t = [] \<or> 6 \<le> length t"
  shows "snd (get_web_url E h c item pt pk dl js sk tr cn ex) ! length h =
     (let d0 = h ! data item;
          d1 = (if js then AList.update ''jsevents'' (PInt 1) d0 else d0);
          d2 = (if cn then AList.update ''consumable'' (PInt 1) d1 else d1);
          d3 = (if ex \<noteq> PNone then AList.update ''expires_at'' ex d2 else d2);
          d4 = (case tr of
                  None \<Rightarrow> d3
                | Some t \<Rightarrow> if t \<noteq> [] then AList.update ''tref'' (PStr t) d3 else d3)
      in if sk then AList.update ''skip_add_to_invoice'' (PInt 1) d4 else d4)"
  using assms
  by (cases tr rule: tref_cases)
     (simp_all add: get_web_url_eq Let_def split del: if_split cong: if_cong)

lemma dialog_urls_unsigned:
  "get_login_dialog_url E c n uj
     = web_root c @ ''/dialog-api?url=''
       @ compat_quote_plus E (web_root c @ ''/account/dialog/login?next=''
           @ compat_quote_plus E n @ (if uj then ''&jsevents=1'' else []) @ ''&cp='' @ cp_key c)"
  "get_signup_dialog_url E c n uj
     = web_root c @ ''/dialog-api?url=''
       @ compat_quote_plus E (web_root c @ ''/account/dialog/signup?next=''
           @ compat_quote_plus E n @ (if uj then ''&jsevents=1'' else []) @ ''&cp='' @ cp_key c)"
  "get_logout_dialog_url E c n uj
     = web_root c @ ''/dialog-api?url=''
       @ compat_quote_plus E (web_root c @ ''/account/dialog/logout?next=''
           @ compat_quote_plus E n @ (if uj then ''&jsevents=1'' else []) @ ''&cp='' @ cp_key c)"
  by (simp_all add: get_login_dialog_url_def get_signup_dialog_url_def
        get_logout_dialog_url_def get_dialog_api_url_def)

lemma dialog_urls_any_signer:
  "get_login_dialog_url (E\<lparr>signing_sign_and_encode := sg\<rparr>) c n uj
     = get_login_dialog_url E c n uj"
  "get_signup_dialog_url (E\<lparr>signing_sign_and_encode := sg\<rparr>) c n uj
     = get_signup_dialog_url E c n uj"
  "get_logout_dialog_url (E\<lparr>signing_sign_and_encode := sg\<rparr>) c n uj
     = get_logout_dialog_url E c n uj"
  by (simp_all add: dialog_urls_unsigned)

text \<open>
  C2, as the specification states it, has every builder call the signer, the login,
  signup and logout dialog builders among them, so that their URLs contain a signature
  the signer produced. Those three never call it. With a signer that answers every call
  with one fixed query string, the string stands nowhere in the three URLs, neither as it
  is nor percent-encoded.
\<close>

theorem dialog_urls_counterexample:
  "signing_sign_and_encode env0 (shared_secret client0)
       [(''next'', PStr ''http://example.com/a''), (''cp'', PStr (cp_key client0))]
       (web_root client0 @ ''/account/dialog/login'') ''GET'' = Inr stub_signature
   \<and> get_login_dialog_url env0 client0 ''http://example.com/a'' False
       = ''https://web.laterpay.net/dialog-api?url=''
         @ ''https%3A%2F%2Fweb.laterpay.net%2Faccount%2Fdialog%2Flogin''
         @ ''%3Fnext%3Dhttp%253A%252F%252Fexample.com%252Fa%26cp%3Dcp1''
   \<and> \<not> spec_carries_signature env0
         (get_login_dialog_url env0 client0 ''http://example.com/a'' False) stub_signature
   \<and> \<not> spec_carries_signature env0
         (get_signup_dialog_url env0 client0 ''http://example.com/a'' False) stub_signature
   \<and> \<not> spec_carries_signature env0
         (get_logout_dialog_url env0 client0 ''http://example.com/a'' False) stub_signature"
  by code_simp

text \<open>
  C2, amended: the builders of the token bootstrap, identify, controls-links and
  controls-balance URLs assemble a parameter map (the options of the call and the
  provider key under \<^verbatim>\<open>cp\<close>; for the two controls URLs also the random \<^verbatim>\<open>xdmprefix\<close>),
  call the signer on it with the base URL and \<^verbatim>\<open>GET\<close>, and return the base URL, a
  question mark and the signed query string (or raise what the signer raises). The buy
  and add builders, when they do not reject the transaction reference, sign the per-call
  copy of the item's map and wrap the signed URL in the dialog-api URL. The login, signup
  and logout dialog builders call no signer: they return the dialog-api URL around the
  unsigned URL of the dialog, and their result is the same whatever the signer is.
\<close>

theorem url_builders_signed:
  "spec_signed_url E c (api_root c @ ''/gettoken'')
     [(''redir'', return_to), (''cp'', PStr (cp_key c))] (get_gettoken_redirect E c return_to)
   \<and> spec_signed_url E c (api_root c @ ''/identify'')
       ([(''cp'', PStr (cp_key c))]
        @ (if cb \<noteq> PNone then [(''callback_url'', cb)] else []))
       (get_identify_url E c cb)
   \<and> spec_signed_url E c (web_root c @ ''/controls/links'')
       ([(''next'', next_url), (''cp'', PStr (cp_key c))]
        @ (if forcelang \<noteq> PNone then [(''forcelang'', forcelang)] else [])
        @ (if css_url \<noteq> PNone then [(''css'', css_url)] else [])
        @ (if use_jsevents then [(''jsevents'', PStr ''1'')] else [])
        @ (if show_long_greeting \<or> show_greeting \<or> show_login \<or> show_long_signup
              \<or> show_signup
           then [(''show'', PStr ((if show_long_greeting then ''gg''
                                   else if show_greeting then ''g'' else [])
                                  @ (if show_login then ''l'' else [])
                                  @ (if show_long_signup then ''ss''
                                     else if show_signup then ''s'' else [])))]
           else [])
        @ [(''xdmprefix'', PStr (xdmprefix E))])
       (get_controls_links_url E c next_url css_url forcelang show_greeting
          show_long_greeting show_login show_signup show_long_signup use_jsevents)
   \<and> spec_signed_url E c (web_root c @ ''/controls/balance'')
       ([(''cp'', PStr (cp_key c))]
        @ (if forcelang \<noteq> PNone then [(''forcelang'', forcelang)] else [])
        @ [(''xdmprefix'', PStr (xdmprefix E))])
       (get_controls_balance_url E c forcelang)
   \<and> ((\<forall>t. tr = Some t \<longrightarrow> t = [] \<or> 6 \<le> length t) \<longrightarrow>
         spec_signed_dialog_url E c
           (case pk of
              Some k \<Rightarrow> (if dl then web_root c @ ''/dialog'' else web_root c)
                         @ ''/'' @ k @ ''/'' @ ''buy''
            | None \<Rightarrow> (if dl then web_root c @ ''/dialog'' else web_root c) @ ''/'' @ ''buy'')
           (snd (get_buy_url E h c item pk dl js sk tr cn ex) ! length h)
           (fst (get_buy_url E h c item pk dl js sk tr cn ex))
       \<and> spec_signed_dialog_url E c
           (case pk of
              Some k \<Rightarrow> (if dl then web_root c @ ''/dialog'' else web_root c)
                         @ ''/'' @ k @ ''/'' @ ''add''
            | None \<Rightarrow> (if dl then web_root c @ ''/dialog'' else web_root c) @ ''/'' @ ''add'')
           (snd (get_add_url E h c item pk dl js sk tr cn ex) ! length h)
           (fst (get_add_url E h c item pk dl js sk tr cn ex))
       \<and> snd (get_buy_url E h c item pk dl js sk tr cn ex) ! length h
           = (let d0 = h ! data item;
                d1 = (if js then AList.update ''jsevents'' (PInt 1) d0 else d0);
                d2 = (if cn then AList.update ''consumable'' (PInt 1) d1 else d1);
                d3 = (if ex \<noteq> PNone then AList.update ''expires_at'' ex d2 else d2);
                d4 = (case tr of
                        None \<Rightarrow> d3
                      | Some t \<Rightarrow> if t \<noteq> [] then AList.update ''tref'' (PStr t) d3 else d3)
            in if sk then AList.update ''skip_add_to_invoice'' (PInt 1) d4 else d4)
       \<and> snd (get_add_url E h c item pk dl js sk tr cn ex) ! length h
           = (let d0 = h ! data item;
                d1 = (if js then AList.update ''jsevents'' (PInt 1) d0 else d0);
                d2 = (if cn then AList.update ''consumable'' (PInt 1) d1 else d1);
                d3 = (if ex \<noteq> PNone then AList.update ''expires_at'' ex d2 else d2);
                d4 = (case tr of
                        None \<Rightarrow> d3
                      | Some t \<Rightarrow> if t \<noteq> [] then AList.update ''tref'' (PStr t) d3 else d3)
            in if sk then AList.update ''skip_add_to_invoice'' (PInt 1) d4 else d4))
   \<and> get_login_dialog_url E c n uj
       = web_root c @ ''/dialog-api?url=''
         @ compat_quote_plus E (web_root c @ ''/account/dialog/login?next=''
             @ compat_quote_plus E n @ (if uj then ''&jsevents=1'' else []) @ ''&cp='' @ cp_key c)
   \<and> get_signup_dialog_url E c n uj
       = web_root c @ ''/dialog-api?url=''
         @ compat_quote_plus E (web_root c @ ''/account/dialog/signup?next=''
             @ compat_quote_plus E n @ (if uj then ''&jsevents=1'' else []) @ ''&cp='' @ cp_key c)
   \<and> get_logout_dialog_url E c n uj
       = web_root c @ ''/dialog-api?url=''
         @ compat_quote_plus E (web_root c @ ''/account/dialog/logout?next=''
             @ compat_quote_plus E n @ (if uj then ''&jsevents=1'' else []) @ ''&cp='' @ cp_key c)
   \<and> get_login_dialog_url (E\<lparr>signing_sign_and_encode := sg\<rparr>) c n uj
       = get_login_dialog_url E c n uj
   \<and> get_signup_dialog_url (E\<lparr>signing_sign_and_encode := sg\<rparr>) c n uj
       = get_signup_dialog_url E c n uj
   \<and> get_logout_dialog_url (E\<lparr>signing_sign_and_encode := sg\<rparr>) c n uj
       = get_logout_dialog_url E c n uj"
  unfolding get_buy_url_def get_add_url_def
  by (intro conjI impI gettoken_signed identify_signed controls_links_signed
        controls_balance_signed buy_add_signed buy_add_cell dialog_urls_unsigned
        dialog_urls_any_signer)

theorem url_builders_signed_witness:
  "get_gettoken_redirect env0 client0 (PStr ''http://example.com/'')
     = Inr ''https://api.laterpay.net/gettoken?ts=1400000000&hmac=5f2a''
   \<and> fst (get_buy_url env0 heap0 client0 item0 None True False False None False PNone)
     = Inr (''https://web.laterpay.net/dialog-api?url=''
            @ compat_quote_plus env0 (''https://web.laterpay.net/dialog/buy?'' @ stub_signature))
   \<and> spec_carries_signature env0
       (''https://web.laterpay.net/dialog-api?url=''
        @ compat_quote_plus env0 (''https://web.laterpay.net/dialog/buy?'' @ stub_signature))
       stub_signature"
proof -
  have sg: "\<And>d u m. signing_sign_and_encode env0 (shared_secret client0) d u m
                 = Inr stub_signature"
    by (simp add: env0_def stub_env_def stub_sign_def client0_def LaterPayClient_init_def)
  have roots: "api_root client0 = ''https://api.laterpay.net''"
    "web_root client0 = ''https://web.laterpay.net''"
    by (simp_all add: client0_def LaterPayClient_init_def)
  have a: "get_gettoken_redirect env0 client0 (PStr ''http://example.com/'')
             = Inr ''https://api.laterpay.net/gettoken?ts=1400000000&hmac=5f2a''"
    using url_builders_signed [THEN conjunct1, of env0 client0 "PStr ''http://example.com/''"]
    by (simp add: spec_signed_url_def sg roots stub_signature_def)
  have hyp: "\<forall>t. (None :: string option) = Some t \<longrightarrow> t = [] \<or> 6 \<le> length t"
    by simp
  note inst = url_builders_signed [where E = env0 and c = client0 and pk = None and dl = True
      and h = heap0 and item = item0 and js = False and sk = False and cn = False
      and ex = PNone and tr = None]
  note buy = inst [THEN conjunct2, THEN conjunct2, THEN conjunct2,
      THEN conjunct2, THEN conjunct1, THEN mp, OF hyp, THEN conjunct1]
  have b: "fst (get_buy_url env0 heap0 client0 item0 None True False False None False PNone)
     = Inr (''https://web.laterpay.net/dialog-api?url=''
            @ compat_quote_plus env0 (''https://web.laterpay.net/dialog/buy?'' @ stub_signature))"
    using buy by (simp add: spec_signed_dialog_url_def sg roots)
  have c: "spec_carries_signature env0
       (''https://web.laterpay.net/dialog-api?url=''
        @ compat_quote_plus env0 (''https://web.laterpay.net/dialog/buy?'' @ stub_signature))
       stub_signature"
    by code_simp
  from a b c show ?thesis
    by (intro conjI)
qed

end
